theory Spec2Isabelle
  imports Complex_Main
begin

section \<open>Conventions of the embedding\<close>

text \<open>
  The TypeScript sources compute with IEEE doubles (and store mesh attributes as 32-bit
  floats).  The embedding idealises every \<open>number\<close> as a \<^typ>\<open>real\<close>: rounding, NaN and
  the infinities are outside the model.  A quotient of the model is the quotient of the
  source whenever its divisor is not zero; a statement whose truth depends on such a
  quotient says so in a hypothesis, and the statements about statuses and scores hold
  whatever the quotients are.  The one exception is the fabric offset of
  \<open>createHybridTShirt\<close> (lines 214-270), which is computed in \<open>jsnum\<close>, the reals
  extended by IEEE's two infinities and NaN, so that its quotients by a body height or a
  body width of zero are the source's.  Optional fields of an interface are
  \<^typ>\<open>'a option\<close>; a JavaScript truthiness test on an optional number is \<open>truthy\<close>.
\<close>

definition truthy :: "real option \<Rightarrow> bool" where
  "truthy x = (case x of None \<Rightarrow> False | Some v \<Rightarrow> v \<noteq> 0)"

section \<open>Fit analysis: \<open>src/lib/3d/garmentMeasurements.ts\<close>\<close>

datatype fit_status = too_tight | tight | perfect | loose | too_loose

record GarmentMeasurements =
  g_chest :: real
  g_waist :: "real option"
  g_length :: real
  g_shoulderWidth :: "real option"
  g_sleeveLength :: "real option"
  g_hemWidth :: "real option"
  g_neckWidth :: "real option"
  g_armholeDepth :: "real option"

record BodyMeasurements =
  b_chest :: real
  b_waist :: real
  b_hips :: "real option"
  b_shoulderWidth :: real
  b_torsoLength :: "real option"

record FitMetric =
  garmentMeasurement :: real
  bodyMeasurement :: real
  difference :: real
  status :: fit_status
  percentage :: real

text \<open>\<open>classifyFit\<close>, lines 152-158: the first threshold that holds decides.\<close>

definition classifyFit :: "real \<Rightarrow> fit_status" where
  "classifyFit p =
     (if p < -5 then too_tight
      else if p < 2 then tight
      else if p < 10 then perfect
      else if p < 20 then loose
      else too_loose)"

text \<open>The position of a status in the order (too_tight, tight, perfect, loose, too_loose).\<close>

fun category_index :: "fit_status \<Rightarrow> nat" where
  "category_index too_tight = 0"
| "category_index tight = 1"
| "category_index perfect = 2"
| "category_index loose = 3"
| "category_index too_loose = 4"

text \<open>
  One region of \<open>analyzeFit\<close>: \<open>diff = garment - body\<close>,
  \<open>percentage = (diff / body) * 100\<close>, and the metric record built from them.
\<close>

definition fitMetric :: "real \<Rightarrow> real \<Rightarrow> FitMetric" where
  "fitMetric garment body =
     (let diff = garment - body;
          pct = (diff / body) * 100
      in \<lparr> garmentMeasurement = garment, bodyMeasurement = body, difference = diff,
           status = classifyFit pct, percentage = pct \<rparr>)"

text \<open>
  The recommendation text of \<open>generateRecommendation\<close> (lines 163-210) is kept as the list
  of issue phrases it joins; the numbers are the ones the source prints with
  \<open>toFixed(0)\<close>.  An empty list is the positive confirmation.
\<close>

datatype issue =
    ChestVeryTight real
  | ChestSnug
  | ChestVeryLoose real
  | WaistVeryTight real
  | WaistVeryLoose real
  | ShouldersTooNarrow
  | ShouldersTooWide
  | GarmentTooShort
  | GarmentVeryLong

definition generateRecommendation ::
  "FitMetric \<Rightarrow> FitMetric option \<Rightarrow> FitMetric option \<Rightarrow> FitMetric option \<Rightarrow> issue list" where
  "generateRecommendation chestFit waistFit shoulderFit lengthFit =
     (if status chestFit = too_tight then [ChestVeryTight \<bar>difference chestFit\<bar>]
      else if status chestFit = tight then [ChestSnug]
      else if status chestFit = too_loose then [ChestVeryLoose (difference chestFit)]
      else [])
     @ (case waistFit of None \<Rightarrow> []
        | Some w \<Rightarrow>
            if status w = too_tight then [WaistVeryTight \<bar>difference w\<bar>]
            else if status w = too_loose then [WaistVeryLoose (difference w)]
            else [])
     @ (case shoulderFit of None \<Rightarrow> []
        | Some s \<Rightarrow>
            if status s = too_tight then [ShouldersTooNarrow]
            else if status s = too_loose then [ShouldersTooWide]
            else [])
     @ (case lengthFit of None \<Rightarrow> []
        | Some l \<Rightarrow>
            if difference l < -5 then [GarmentTooShort]
            else if difference l > 15 then [GarmentVeryLong]
            else [])"

record FitAnalysis =
  overall :: fit_status
  chestFit :: FitMetric
  waistFit :: "FitMetric option"
  shoulderFit :: "FitMetric option"
  lengthFit :: "FitMetric option"
  recommendation :: "issue list"

text \<open>\<open>statusPriority\<close>, lines 124-130.\<close>

fun statusPriority :: "fit_status \<Rightarrow> nat" where
  "statusPriority too_tight = 0"
| "statusPriority tight = 1"
| "statusPriority perfect = 2"
| "statusPriority loose = 1"
| "statusPriority too_loose = 0"

text \<open>
  \<open>allStatuses.reduce((worst, current) => ...)\<close> without an initial value: the first
  element starts the accumulator.  \<open>allStatuses\<close> always holds the chest status, so the
  empty case (where JavaScript throws) does not arise in \<open>analyzeFit\<close>.
\<close>

definition worstOf :: "fit_status \<Rightarrow> fit_status list \<Rightarrow> fit_status" where
  "worstOf first others =
     foldl (\<lambda>worst current.
              if statusPriority current < statusPriority worst then current else worst)
           first others"

definition optList :: "'a option \<Rightarrow> 'a list" where
  "optList x = (case x of None \<Rightarrow> [] | Some v \<Rightarrow> [v])"

text \<open>\<open>analyzeFit\<close>, lines 59-147.\<close>

definition analyzeFit :: "GarmentMeasurements \<Rightarrow> BodyMeasurements \<Rightarrow> FitAnalysis" where
  "analyzeFit g b =
     (let chestF = fitMetric (g_chest g) (b_chest b);
          waistF = (if truthy (g_waist g)
                    then Some (fitMetric (the (g_waist g)) (b_waist b)) else None);
          shoulderF = (if truthy (g_shoulderWidth g)
                       then Some (fitMetric (the (g_shoulderWidth g)) (b_shoulderWidth b))
                       else None);
          lengthF = (if truthy (b_torsoLength b)
                     then Some (fitMetric (g_length g) (the (b_torsoLength b))) else None);
          allStatuses = map status (optList waistF @ optList shoulderF)
      in \<lparr> overall = worstOf (status chestF) allStatuses,
           chestFit = chestF,
           waistFit = waistF,
           shoulderFit = shoulderF,
           lengthFit = lengthF,
           recommendation = generateRecommendation chestF waistF shoulderF lengthF \<rparr>)"

text \<open>\<open>calculateFitScore\<close>, lines 326-342.\<close>

fun statusScores :: "fit_status \<Rightarrow> int" where
  "statusScores too_tight = -10"
| "statusScores tight = 3"
| "statusScores perfect = 10"
| "statusScores loose = 5"
| "statusScores too_loose = -5"

definition calculateFitScore :: "FitAnalysis \<Rightarrow> int" where
  "calculateFitScore a =
     statusScores (overall a) * 2
     + statusScores (status (chestFit a))
     + (case waistFit a of None \<Rightarrow> 0 | Some w \<Rightarrow> statusScores (status w))
     + (case shoulderFit a of None \<Rightarrow> 0 | Some s \<Rightarrow> statusScores (status s))"

text \<open>
  \<open>recommendSize\<close>, lines 278-321.  The reason of an alternative is either the
  recommendation prefixed with \<open>Alternative: \<close> (the displaced previous best) or the
  recommendation itself.  Reading \<open>availableSizes[0].measurements\<close> of an empty array
  throws a \<open>TypeError\<close>, which is the \<open>Inl\<close> branch.
\<close>

record SizeOption =
  size_name :: string
  measurements :: GarmentMeasurements

datatype reason = AlternativePrefixed "issue list" | Plain "issue list"

record Alternative =
  alt_size :: string
  alt_reason :: reason

record ScanState =
  bestSize :: SizeOption
  bestAnalysis :: FitAnalysis
  bestScore :: int
  alternatives :: "Alternative list"

definition notExtreme :: "fit_status \<Rightarrow> bool" where
  "notExtreme s = (s \<noteq> too_tight \<and> s \<noteq> too_loose)"

text \<open>One iteration of the \<open>for ... of\<close> loop, lines 292-314.\<close>

definition scanStep :: "BodyMeasurements \<Rightarrow> ScanState \<Rightarrow> SizeOption \<Rightarrow> ScanState" where
  "scanStep b st sizeOption =
     (let analysis = analyzeFit (measurements sizeOption) b;
          score = calculateFitScore analysis
      in if score > bestScore st then
           \<lparr> bestSize = sizeOption, bestAnalysis = analysis, bestScore = score,
             alternatives =
               (if notExtreme (overall (bestAnalysis st))
                then alternatives st @
                       [\<lparr> alt_size = size_name (bestSize st),
                          alt_reason = AlternativePrefixed (recommendation (bestAnalysis st)) \<rparr>]
                else alternatives st) \<rparr>
         else if score > 0 \<and> notExtreme (overall analysis) then
           st\<lparr> alternatives := alternatives st @
                  [\<lparr> alt_size = size_name sizeOption,
                     alt_reason = Plain (recommendation analysis) \<rparr>] \<rparr>
         else st)"

datatype js_error = TypeError

record SizeRecommendation =
  recommendedSize :: string
  analysis :: FitAnalysis
  alternativeSizes :: "Alternative list"

definition recommendSize ::
  "SizeOption list \<Rightarrow> BodyMeasurements \<Rightarrow> js_error + SizeRecommendation" where
  "recommendSize availableSizes b =
     (case availableSizes of
        [] \<Rightarrow> Inl TypeError
      | first # _ \<Rightarrow>
          (let a0 = analyzeFit (measurements first) b;
               st0 = \<lparr> bestSize = first, bestAnalysis = a0,
                       bestScore = calculateFitScore a0, alternatives = [] \<rparr>;
               st = foldl (scanStep b) st0 availableSizes
           in Inr \<lparr> recommendedSize = size_name (bestSize st),
                    analysis = bestAnalysis st,
                    alternativeSizes = take 2 (alternatives st) \<rparr>))"

text \<open>
  The statuses that enter \<open>allStatuses\<close> (lines 118-122), read back from a returned
  analysis: chest, then waist and shoulder when they were computed.
\<close>

definition keyStatuses :: "FitAnalysis \<Rightarrow> fit_status list" where
  "keyStatuses r =
     status (chestFit r) # map status (optList (waistFit r) @ optList (shoulderFit r))"

definition fitScore :: "BodyMeasurements \<Rightarrow> SizeOption \<Rightarrow> int" where
  "fitScore b s = calculateFitScore (analyzeFit (measurements s) b)"

subsection \<open>Concrete measurement records used by the evaluations below\<close>

definition mkGarment ::
  "real \<Rightarrow> real option \<Rightarrow> real \<Rightarrow> real option \<Rightarrow> GarmentMeasurements" where
  "mkGarment c w l s =
     \<lparr> g_chest = c, g_waist = w, g_length = l, g_shoulderWidth = s,
       g_sleeveLength = None, g_hemWidth = None, g_neckWidth = None,
       g_armholeDepth = None \<rparr>"

definition scenarioBody :: BodyMeasurements where
  "scenarioBody =
     \<lparr> b_chest = 95, b_waist = 80, b_hips = None, b_shoulderWidth = 45,
       b_torsoLength = Some 68 \<rparr>"

definition sizeM :: SizeOption where
  "sizeM = \<lparr> size_name = ''M'', measurements = mkGarment 102 (Some 94) 70 (Some 46) \<rparr>"

definition sizeS :: SizeOption where
  "sizeS = \<lparr> size_name = ''S'', measurements = mkGarment 88 (Some 80) 66 (Some 42) \<rparr>"

definition shortGarment :: GarmentMeasurements where
  "shortGarment = mkGarment 100 None 50 None"


section \<open>Vectors and the three.js primitives the fitting code calls\<close>

text \<open>
  A \<open>THREE.Vector3\<close> is a triple of reals.  Meshes are taken with the identity world
  matrix, so the positions and normals of a geometry are world positions and world
  normals (\<open>applyMatrix4(worldMatrix)\<close> and the normal matrix are the identity).
\<close>

type_synonym vec3 = "real \<times> real \<times> real"

fun xOf :: "vec3 \<Rightarrow> real" where "xOf (x, y, z) = x"

fun yOf :: "vec3 \<Rightarrow> real" where "yOf (x, y, z) = y"

fun zOf :: "vec3 \<Rightarrow> real" where "zOf (x, y, z) = z"

fun vadd :: "vec3 \<Rightarrow> vec3 \<Rightarrow> vec3" where
  "vadd (a, b, c) (x, y, z) = (a + x, b + y, c + z)"

fun vsub :: "vec3 \<Rightarrow> vec3 \<Rightarrow> vec3" where
  "vsub (a, b, c) (x, y, z) = (a - x, b - y, c - z)"

fun vscale :: "real \<Rightarrow> vec3 \<Rightarrow> vec3" where
  "vscale k (x, y, z) = (x * k, y * k, z * k)"

fun vneg :: "vec3 \<Rightarrow> vec3" where
  "vneg (x, y, z) = (- x, - y, - z)"

fun vdot :: "vec3 \<Rightarrow> vec3 \<Rightarrow> real" where
  "vdot (a, b, c) (x, y, z) = a * x + b * y + c * z"

fun vcross :: "vec3 \<Rightarrow> vec3 \<Rightarrow> vec3" where
  "vcross (a, b, c) (x, y, z) = (b * z - c * y, c * x - a * z, a * y - b * x)"

definition vlength :: "vec3 \<Rightarrow> real" where
  "vlength v = sqrt (vdot v v)"

text \<open>\<open>Vector3.normalize\<close>: \<open>divideScalar(length() || 1)\<close>, so the zero vector stays zero.\<close>

definition vnormalize :: "vec3 \<Rightarrow> vec3" where
  "vnormalize v = (let l = vlength v in vscale (1 / (if l = 0 then 1 else l)) v)"

text \<open>
  A \<open>THREE.BufferGeometry\<close>: the position attribute, the optional normal attribute and
  the optional triangle index (a flat list of vertex indices).  The attributes of one
  geometry are taken to have the same vertex count, and indices to be in range where a
  position is read through them (a read out of range yields NaN in the source).  The
  bounding volumes three.js caches on a geometry are not part of the record.
\<close>

record BufferGeometry =
  position :: "vec3 list"
  normal :: "vec3 list option"
  index :: "nat list option"

fun triples :: "'a list \<Rightarrow> ('a \<times> 'a \<times> 'a) list" where
  "triples (a # b # c # rest) = (a, b, c) # triples rest"
| "triples _ = []"

text \<open>The faces a geometry draws: index triples, or consecutive vertices without an index.\<close>

definition facesOf :: "BufferGeometry \<Rightarrow> (nat \<times> nat \<times> nat) list" where
  "facesOf g =
     (case index g of
        Some idx \<Rightarrow> triples idx
      | None \<Rightarrow> triples [0..<length (position g)])"

text \<open>
  \<open>BufferGeometry.computeVertexNormals\<close>: the normals are reset to zero, every face adds
  \<open>(pC - pB) \<times> (pA - pB)\<close> to its three vertices, and \<open>normalizeNormals\<close> normalises each.
\<close>

fun faceNormal :: "vec3 list \<Rightarrow> nat \<times> nat \<times> nat \<Rightarrow> vec3" where
  "faceNormal ps (a, b, c) = vcross (vsub (ps ! c) (ps ! b)) (vsub (ps ! a) (ps ! b))"

fun addFace :: "vec3 list \<Rightarrow> vec3 list \<Rightarrow> nat \<times> nat \<times> nat \<Rightarrow> vec3 list" where
  "addFace ps ns (a, b, c) =
     (let cb = faceNormal ps (a, b, c);
          nA = vadd (ns ! a) cb;
          nB = vadd (ns ! b) cb;
          nC = vadd (ns ! c) cb
      in ns[a := nA, b := nB, c := nC])"

definition computeVertexNormals :: "BufferGeometry \<Rightarrow> BufferGeometry" where
  "computeVertexNormals g =
     (let n = (case normal g of Some ns \<Rightarrow> length ns | None \<Rightarrow> length (position g));
          zero = replicate n (0, 0, 0)
      in g\<lparr> normal := Some (map vnormalize (foldl (addFace (position g)) zero (facesOf g))) \<rparr>)"

text \<open>\<open>computeBoundingBox\<close>: only \<open>min.y\<close> and \<open>max.y\<close> are read by the fitting code.\<close>

definition minList :: "real list \<Rightarrow> real" where
  "minList xs = foldl min (hd xs) (tl xs)"

definition maxList :: "real list \<Rightarrow> real" where
  "maxList xs = foldl max (hd xs) (tl xs)"

definition bboxMinY :: "BufferGeometry \<Rightarrow> real" where
  "bboxMinY g = minList (map yOf (position g))"

definition bboxMaxY :: "BufferGeometry \<Rightarrow> real" where
  "bboxMaxY g = maxList (map yOf (position g))"

text \<open>
  \<open>Ray.intersectTriangle(a, b, c, backfaceCulling)\<close>: the ray parameter of the hit, or
  \<open>None\<close> for \<open>null\<close>.
\<close>

definition intersectTriangle ::
  "vec3 \<Rightarrow> vec3 \<Rightarrow> vec3 \<Rightarrow> vec3 \<Rightarrow> vec3 \<Rightarrow> bool \<Rightarrow> real option" where
  "intersectTriangle origin direction a b c backfaceCulling =
     (let edge1 = vsub b a;
          edge2 = vsub c a;
          nrm = vcross edge1 edge2;
          DdN0 = vdot direction nrm
      in if DdN0 > 0 \<and> backfaceCulling then None
         else if DdN0 = 0 then None
         else
           (let sgn = (if DdN0 > 0 then 1 else - 1);
                DdN = (if DdN0 > 0 then DdN0 else - DdN0);
                diff = vsub origin a;
                DdQxE2 = sgn * vdot direction (vcross diff edge2)
            in if DdQxE2 < 0 then None
               else
                 (let DdE1xQ = sgn * vdot direction (vcross edge1 diff)
                  in if DdE1xQ < 0 then None
                     else if DdQxE2 + DdE1xQ > DdN then None
                     else
                       (let QdN = - sgn * vdot diff nrm
                        in if QdN < 0 then None else Some (QdN / DdN)))))"

datatype material_side = FrontSide | BackSide | DoubleSide

text \<open>
  \<open>checkIntersection\<close> of \<open>Mesh.raycast\<close>: the side of the material chooses the winding
  and the culling; the distance of the hit \<open>origin + t * direction\<close> from the origin is
  \<open>t * |direction|\<close>.  The raycaster's \<open>near = 0\<close> and \<open>far = Infinity\<close> reject nothing.
\<close>

fun checkIntersection ::
  "material_side \<Rightarrow> vec3 \<Rightarrow> vec3 \<Rightarrow> vec3 list \<Rightarrow> nat \<times> nat \<times> nat \<Rightarrow> real option" where
  "checkIntersection s origin direction ps (a, b, c) =
     map_option (\<lambda>t. t * vlength direction)
       (if s = BackSide
        then intersectTriangle origin direction (ps ! c) (ps ! b) (ps ! a) True
        else intersectTriangle origin direction (ps ! a) (ps ! b) (ps ! c) (s = FrontSide))"

fun nearest :: "real list \<Rightarrow> real option" where
  "nearest [] = None"
| "nearest (d # ds) = Some (foldl min d ds)"

text \<open>
  \<open>raycaster.set(origin, direction); raycaster.intersectObject(mesh, true)\<close> followed by
  \<open>intersections[0].distance\<close>: the hits are sorted by distance, so the first one is the
  nearest; \<open>None\<close> is the empty array.  The mesh has no children.  The bounding-sphere and
  bounding-box tests of \<open>Mesh.raycast\<close> only skip meshes the ray cannot hit.
\<close>

definition intersectObject ::
  "BufferGeometry \<Rightarrow> material_side \<Rightarrow> vec3 \<Rightarrow> vec3 \<Rightarrow> real option" where
  "intersectObject g s origin direction =
     nearest (List.map_filter (checkIntersection s origin direction (position g)) (facesOf g))"

section \<open>The fabric physics passes: \<open>fabricPhysics\<close> (\<open>unnamed/part_010\<close>, lines 70-417)\<close>

text \<open>
  Every pass takes the nearest-hit query of the avatar mesh as \<open>cast origin direction\<close>
  and the garment geometry, and returns the geometry it leaves behind.  A pass that reads
  the normal attribute of a geometry that has vertices but no normals throws a
  \<open>TypeError\<close> at its first vertex, before it has written anything.
\<close>

type_synonym raycast = "vec3 \<Rightarrow> vec3 \<Rightarrow> real option"

definition normalAttribute :: "BufferGeometry \<Rightarrow> js_error + vec3 list" where
  "normalAttribute g =
     (case normal g of
        Some ns \<Rightarrow> Inr ns
      | None \<Rightarrow> if position g = [] then Inr [] else Inl TypeError)"

text \<open>\<open>applyStretchZones\<close>, one vertex of the loop at lines 99-134.\<close>

definition stretchVertex :: "raycast \<Rightarrow> real \<Rightarrow> real \<Rightarrow> vec3 \<Rightarrow> vec3 \<Rightarrow> vec3" where
  "stretchVertex cast minY height vertex nrm =
     (case cast vertex (vneg nrm) of
        None \<Rightarrow> vertex
      | Some distanceToBody \<Rightarrow>
          if distanceToBody < 0.02 then
            (let normalizedY = (yOf vertex - minY) / height;
                 stretchFactor =
                   (if normalizedY > 0.5 \<and> normalizedY < 0.85 then 0.7
                    else if normalizedY \<ge> 0.85 then 0.5
                    else 1.0);
                 pullAmount = distanceToBody * (1 - stretchFactor)
             in vsub vertex (vscale pullAmount nrm))
          else vertex)"

definition applyStretchZones :: "raycast \<Rightarrow> BufferGeometry \<Rightarrow> js_error + BufferGeometry" where
  "applyStretchZones cast g =
     (case normalAttribute g of
        Inl e \<Rightarrow> Inl e
      | Inr ns \<Rightarrow>
          (let minY = bboxMinY g;
               height = bboxMaxY g - minY
           in Inr (computeVertexNormals
                    (g\<lparr> position := map2 (stretchVertex cast minY height) (position g) ns \<rparr>))))"

text \<open>\<open>applyCollisionResponse\<close>, lines 143-195.\<close>

definition collisionVertex :: "raycast \<Rightarrow> real \<Rightarrow> vec3 \<Rightarrow> vec3 \<Rightarrow> vec3" where
  "collisionVertex cast minDistance vertex nrm =
     (case cast vertex (vneg nrm) of
        None \<Rightarrow> vertex
      | Some distance \<Rightarrow>
          if distance < minDistance then
            (let pushDistance = minDistance - distance;
                 elasticFactor = 1.2;
                 actualPush = pushDistance * elasticFactor
             in vadd vertex (vscale actualPush nrm))
          else vertex)"

definition collides :: "raycast \<Rightarrow> real \<Rightarrow> vec3 \<Rightarrow> vec3 \<Rightarrow> bool" where
  "collides cast minDistance vertex nrm =
     (case cast vertex (vneg nrm) of
        None \<Rightarrow> False
      | Some distance \<Rightarrow> distance < minDistance)"

definition applyCollisionResponse ::
  "raycast \<Rightarrow> real \<Rightarrow> BufferGeometry \<Rightarrow> js_error + BufferGeometry" where
  "applyCollisionResponse cast minDistance g =
     (case normalAttribute g of
        Inl e \<Rightarrow> Inl e
      | Inr ns \<Rightarrow>
          (let g' = g\<lparr> position := map2 (collisionVertex cast minDistance) (position g) ns \<rparr>;
               collisionCount =
                 length (filter (\<lambda>(v, n). collides cast minDistance v n) (zip (position g) ns))
           in Inr (if collisionCount > 0 then computeVertexNormals g' else g')))"

text \<open>\<open>applyFabricWeight\<close>, lines 200-240.\<close>

datatype fabricType = light | medium | heavy

fun weightFactors :: "fabricType \<Rightarrow> real" where
  "weightFactors light = 0.008"
| "weightFactors medium = 0.015"
| "weightFactors heavy = 0.025"

definition weightVertex :: "real \<Rightarrow> real \<Rightarrow> real \<Rightarrow> vec3 \<Rightarrow> vec3" where
  "weightVertex weightFactor minY height v =
     (let y = yOf v;
          normalizedY = (y - minY) / height;
          x = xOf v;
          z = zOf v;
          distanceFromCenter = sqrt (x * x + z * z);
          verticalWeight = (1 - normalizedY) * weightFactor;
          lateralWeight = distanceFromCenter * 0.3;
          totalDrop = verticalWeight * (1 + lateralWeight)
      in (x, y - totalDrop, z))"

definition applyFabricWeight :: "fabricType \<Rightarrow> BufferGeometry \<Rightarrow> js_error + BufferGeometry" where
  "applyFabricWeight ft g =
     (let minY = bboxMinY g;
          height = bboxMaxY g - minY
      in Inr (computeVertexNormals
               (g\<lparr> position := map (weightVertex (weightFactors ft) minY height) (position g) \<rparr>)))"

text \<open>
  \<open>applySeamTension\<close>, lines 245-292.  \<open>Math.atan2\<close> and \<open>Math.sign\<close> on reals.  The
  side-seam branch writes \<open>x + pullX\<close> from the coordinate read at the top of the
  iteration, so it overwrites the shoulder scaling of \<open>x\<close> when both branches run.
\<close>

definition atan2 :: "real \<Rightarrow> real \<Rightarrow> real" where
  "atan2 y x =
     (if x > 0 then arctan (y / x)
      else if x < 0 then (if y \<ge> 0 then arctan (y / x) + pi else arctan (y / x) - pi)
      else if y > 0 then pi / 2
      else if y < 0 then - pi / 2
      else 0)"

definition seamVertex :: "real \<Rightarrow> vec3 \<Rightarrow> vec3" where
  "seamVertex shoulderY v =
     (let x = xOf v; y = yOf v; z = zOf v;
          seamTolerance = 0.05;
          atShoulder = (\<bar>y - shoulderY\<bar> < seamTolerance);
          pullFactor = 0.95;
          x1 = (if atShoulder then x * pullFactor else x);
          z1 = (if atShoulder then z * pullFactor else z);
          angle = atan2 z x;
          atSide = (\<bar>\<bar>angle\<bar> - pi / 2\<bar> < 0.3);
          inwardPull = 0.003;
          pullX = - sgn x * inwardPull
      in (if atSide then x + pullX else x1, y, z1))"

definition applySeamTension :: "BufferGeometry \<Rightarrow> js_error + BufferGeometry" where
  "applySeamTension g =
     (let minY = bboxMinY g;
          height = bboxMaxY g - minY;
          shoulderY = minY + height * 0.82
      in Inr (computeVertexNormals (g\<lparr> position := map (seamVertex shoulderY) (position g) \<rparr>)))"

text \<open>\<open>applyDynamicWrinkles\<close>, lines 297-363.\<close>

definition wrinkleVertex :: "raycast \<Rightarrow> real \<Rightarrow> vec3 \<Rightarrow> vec3 \<Rightarrow> vec3" where
  "wrinkleVertex cast intensity vertex nrm =
     (case cast vertex (vneg nrm) of
        None \<Rightarrow> vertex
      | Some distanceToBody \<Rightarrow>
          (let wrinkleFactor =
                 (if distanceToBody < 0.03 then 1.0
                  else if distanceToBody < 0.06 then 0.5
                  else 0)
           in if wrinkleFactor > 0 then
                (let wrinklePattern =
                       sin (xOf vertex * 40 + zOf vertex * 30)
                       * cos (yOf vertex * 35)
                       * sin (xOf vertex * 60);
                     wrinkleDisplacement = wrinklePattern * intensity * wrinkleFactor;
                     perpX = - zOf nrm;
                     perpZ = xOf nrm
                 in (xOf vertex + perpX * wrinkleDisplacement,
                     yOf vertex,
                     zOf vertex + perpZ * wrinkleDisplacement))
              else vertex))"

definition applyDynamicWrinkles ::
  "raycast \<Rightarrow> real \<Rightarrow> BufferGeometry \<Rightarrow> js_error + BufferGeometry" where
  "applyDynamicWrinkles cast intensity g =
     (case normalAttribute g of
        Inl e \<Rightarrow> Inl e
      | Inr ns \<Rightarrow>
          Inr (computeVertexNormals
                (g\<lparr> position := map2 (wrinkleVertex cast intensity) (position g) ns \<rparr>)))"


section \<open>The hybrid fitting pipeline: \<open>src/lib/3d/hybridGarmentFitting.ts\<close>\<close>

text \<open>\<open>calculateActualEase\<close>, \<open>garmentMeasurements.ts\<close> lines 215-238.\<close>

record Ease =
  chestEase :: real
  waistEase :: real
  shoulderEase :: real

definition calculateActualEase :: "GarmentMeasurements \<Rightarrow> BodyMeasurements \<Rightarrow> Ease" where
  "calculateActualEase g b =
     (let chestE = g_chest g - b_chest b;
          waistE = (if truthy (g_waist g) then the (g_waist g) - b_waist b
                    else chestE * 0.75);
          shoulderE = (if truthy (g_shoulderWidth g)
                       then the (g_shoulderWidth g) - b_shoulderWidth b
                       else min (chestE * 0.4) 3)
      in \<lparr> chestEase = max 0 chestE, waistEase = max 0 waistE,
           shoulderEase = max 0 shoulderE \<rparr>)"

text \<open>
  \<open>HybridGarmentOptions\<close>.  The \<open>onFitAnalysis\<close> callback and the material colour have no
  effect on the geometry and are left out.
\<close>

record HybridGarmentOptions =
  opt_chestEase :: "real option"
  opt_waistEase :: "real option"
  opt_shoulderEase :: "real option"
  garmentMeasurements :: "GarmentMeasurements option"
  bodyMeasurements :: "BodyMeasurements option"
  gravity :: "bool option"
  smoothing :: "bool option"
  wrinkles :: "bool option"

definition orElse :: "'a option \<Rightarrow> 'a \<Rightarrow> 'a" where
  "orElse x d = (case x of None \<Rightarrow> d | Some v \<Rightarrow> v)"

text \<open>Lines 60-95: product measurements when both records are given, manual ease otherwise.\<close>

definition resolveEase :: "HybridGarmentOptions \<Rightarrow> Ease" where
  "resolveEase opts =
     (case (garmentMeasurements opts, bodyMeasurements opts) of
        (Some gm, Some bm) \<Rightarrow> calculateActualEase gm bm
      | _ \<Rightarrow> \<lparr> chestEase = orElse (opt_chestEase opts) 8,
                waistEase = orElse (opt_waistEase opts) 6,
                shoulderEase = orElse (opt_shoulderEase opts) 3 \<rparr>)"

text \<open>Lines 115-143: the bounding box of the body and the bands derived from it.\<close>

record BodyFrame =
  minY :: real
  bodyHeight :: real
  bodyWidth :: real
  topY :: real
  bottomY :: real
  neckTopY :: real
  sleeveEndY :: real

definition bodyFrame :: "vec3 list \<Rightarrow> HybridGarmentOptions \<Rightarrow> BodyFrame" where
  "bodyFrame ps opts =
     (let ymin = minList (map yOf ps);
          ymax = maxList (map yOf ps);
          xmin = minList (map xOf ps);
          xmax = maxList (map xOf ps);
          height = ymax - ymin;
          width = xmax - xmin;
          sleeveLength =
            orElse (case garmentMeasurements opts of
                      None \<Rightarrow> None
                    | Some gm \<Rightarrow> g_sleeveLength gm) 20;
          sleeveLengthMeters = sleeveLength / 100;
          shoulderY = ymin + height * 0.82
      in \<lparr> minY = ymin, bodyHeight = height, bodyWidth = width,
           topY = ymin + height * 0.85,
           bottomY = ymin + height * 0.50,
           neckTopY = ymin + height * 0.92,
           sleeveEndY = shoulderY - sleeveLengthMeters \<rparr>)"

text \<open>Lines 160-187: the region test of one vertex.\<close>

definition vertexInRegion :: "BodyFrame \<Rightarrow> vec3 \<Rightarrow> bool" where
  "vertexInRegion fr v =
     (let x = xOf v; y = yOf v; z = zOf v;
          neckRadius = 0.08;
          isInYRange = (y \<ge> bottomY fr \<and> y \<le> topY fr);
          distFromCenter = sqrt (x * x + z * z);
          isNeck = (y \<ge> neckTopY fr \<and> distFromCenter < neckRadius);
          normalizedY = (y - minY fr) / bodyHeight fr;
          isAtShoulderHeight = (normalizedY \<ge> 0.70 \<and> normalizedY \<le> 0.90);
          distanceFromBodyCenter = \<bar>x\<bar>;
          torsoHalfWidth = bodyWidth fr * 0.15;
          isOnArm = (isAtShoulderHeight \<and> distanceFromBodyCenter > torsoHalfWidth);
          isBelowSleeveEnd = (y < sleeveEndY fr);
          isSleeveCutoff = (isOnArm \<and> isBelowSleeveEnd)
      in isInYRange \<and> \<not> isNeck \<and> \<not> isSleeveCutoff)"

subsection \<open>The numbers of the offset calculation\<close>

text \<open>
  A JavaScript \<open>number\<close> with its special values, and the operators lines 214-270 apply
  to it, as IEEE 754 defines them on the special values: NaN is absorbing and compares
  false with everything, \<open>0 * Infinity\<close>, \<open>Infinity - Infinity\<close>, \<open>0 / 0\<close> and
  \<open>Infinity / Infinity\<close> are NaN, \<open>a / 0\<close> is the infinity with the sign of \<open>a\<close>, and
  \<open>Math.min\<close>, \<open>Math.max\<close> return NaN when an argument is NaN.  On finite arguments the
  operators are those of the reals.  The reals have one zero, which is read as \<open>+0\<close>: the
  divisors that can be zero here are \<open>topY - bottomY\<close>, a difference of two heights of the
  bounding box, and \<open>bodyWidth / 2\<close>, half the difference of its largest and smallest
  \<open>x\<close>, and such a difference is \<open>+0\<close> when it vanishes.
\<close>

datatype jsnum = Finite real | PosInfinity | NegInfinity | NaN

fun jsSign :: "jsnum \<Rightarrow> real" where
  "jsSign (Finite a) = sgn a"
| "jsSign PosInfinity = 1"
| "jsSign NegInfinity = - 1"
| "jsSign NaN = 0"

definition signedInfinity :: "real \<Rightarrow> jsnum" where
  "signedInfinity s = (if s = 0 then NaN else if s > 0 then PosInfinity else NegInfinity)"

fun jsPlus :: "jsnum \<Rightarrow> jsnum \<Rightarrow> jsnum" where
  "jsPlus (Finite a) (Finite b) = Finite (a + b)"
| "jsPlus NaN y = NaN"
| "jsPlus x NaN = NaN"
| "jsPlus PosInfinity NegInfinity = NaN"
| "jsPlus NegInfinity PosInfinity = NaN"
| "jsPlus PosInfinity y = PosInfinity"
| "jsPlus NegInfinity y = NegInfinity"
| "jsPlus (Finite a) y = y"

fun jsNegate :: "jsnum \<Rightarrow> jsnum" where
  "jsNegate (Finite a) = Finite (- a)"
| "jsNegate PosInfinity = NegInfinity"
| "jsNegate NegInfinity = PosInfinity"
| "jsNegate NaN = NaN"

definition jsMinus :: "jsnum \<Rightarrow> jsnum \<Rightarrow> jsnum" where
  "jsMinus x y = jsPlus x (jsNegate y)"

fun jsTimes :: "jsnum \<Rightarrow> jsnum \<Rightarrow> jsnum" where
  "jsTimes (Finite a) (Finite b) = Finite (a * b)"
| "jsTimes NaN y = NaN"
| "jsTimes x NaN = NaN"
| "jsTimes PosInfinity y = signedInfinity (jsSign y)"
| "jsTimes NegInfinity y = signedInfinity (- jsSign y)"
| "jsTimes (Finite a) y = signedInfinity (sgn a * jsSign y)"

fun jsDivide :: "jsnum \<Rightarrow> jsnum \<Rightarrow> jsnum" where
  "jsDivide (Finite a) (Finite b) = (if b \<noteq> 0 then Finite (a / b) else signedInfinity (sgn a))"
| "jsDivide NaN y = NaN"
| "jsDivide x NaN = NaN"
| "jsDivide PosInfinity (Finite b) = (if b < 0 then NegInfinity else PosInfinity)"
| "jsDivide NegInfinity (Finite b) = (if b < 0 then PosInfinity else NegInfinity)"
| "jsDivide (Finite a) y = Finite 0"
| "jsDivide PosInfinity y = NaN"
| "jsDivide NegInfinity y = NaN"

fun jsLess :: "jsnum \<Rightarrow> jsnum \<Rightarrow> bool" where
  "jsLess (Finite a) (Finite b) = (a < b)"
| "jsLess NaN y = False"
| "jsLess x NaN = False"
| "jsLess (Finite a) y = (y = PosInfinity)"
| "jsLess NegInfinity y = (y \<noteq> NegInfinity)"
| "jsLess PosInfinity y = False"

definition jsGreater :: "jsnum \<Rightarrow> jsnum \<Rightarrow> bool" where
  "jsGreater x y = jsLess y x"

fun jsMin :: "jsnum \<Rightarrow> jsnum \<Rightarrow> jsnum" where
  "jsMin NaN y = NaN"
| "jsMin x NaN = NaN"
| "jsMin x y = (if jsLess y x then y else x)"

fun jsMax :: "jsnum \<Rightarrow> jsnum \<Rightarrow> jsnum" where
  "jsMax NaN y = NaN"
| "jsMax x NaN = NaN"
| "jsMax x y = (if jsLess x y then y else x)"

text \<open>Lines 214-235: the blended offset of a vertex at torso-local height \<open>normalizedY\<close>.\<close>

definition blendedOffset :: "Ease \<Rightarrow> jsnum \<Rightarrow> jsnum" where
  "blendedOffset e normalizedY =
     (if jsGreater normalizedY (Finite 0.8) then Finite (shoulderEase e / 100)
      else if jsGreater normalizedY (Finite 0.5) then
        (let t = jsDivide (jsMinus normalizedY (Finite 0.5)) (Finite 0.3);
             chestOffset = chestEase e / 100;
             shoulderOffset = shoulderEase e / 100
         in jsPlus (Finite chestOffset) (jsTimes (Finite (shoulderOffset - chestOffset)) t))
      else
        (let t = jsDivide normalizedY (Finite 0.5);
             waistOffset = waistEase e / 100;
             chestOffset = chestEase e / 100
         in jsPlus (Finite waistOffset) (jsTimes (Finite (chestOffset - waistOffset)) t)))"

definition minClearance :: real where
  "minClearance = 0.003"

definition maxClearance :: real where
  "maxClearance = 0.05"

text \<open>Lines 242-253: the clamp of the blended offset.  A NaN passes all three tests.\<close>

definition actualOffset :: "jsnum \<Rightarrow> jsnum" where
  "actualOffset fabricOffset =
     (if jsLess fabricOffset (Finite 0) then Finite minClearance
      else if jsLess fabricOffset (Finite minClearance) then Finite minClearance
      else if jsGreater fabricOffset (Finite maxClearance) then Finite maxClearance
      else fabricOffset)"

text \<open>Lines 255-270: the boxiness rule.\<close>

definition adjustedOffset :: "jsnum \<Rightarrow> real \<Rightarrow> real \<Rightarrow> jsnum" where
  "adjustedOffset actual distanceFromCenter width =
     (let maxRadius = width / 2;
          radialPosition = jsMin (jsDivide (Finite distanceFromCenter) (Finite maxRadius)) (Finite 1)
      in if jsGreater actual (Finite 0.01) then
           (let boxinessMultiplier = jsPlus (Finite 0.6) (jsTimes radialPosition (Finite 0.4))
            in jsMax (jsTimes actual boxinessMultiplier) (Finite minClearance))
         else actual)"

text \<open>
  The displacement along the normal that lines 214-270 give a kept vertex.  It is NaN for
  a kept vertex of a body of zero height (\<open>0 / 0\<close> at line 215), and for a vertex on the
  vertical axis of a body of zero width when the clamped offset exceeds 0.01 (\<open>0 / 0\<close> at
  line 258).
\<close>

definition fabricDisplacement :: "BodyFrame \<Rightarrow> Ease \<Rightarrow> vec3 \<Rightarrow> jsnum" where
  "fabricDisplacement fr e v =
     (let normalizedY = jsDivide (Finite (yOf v - bottomY fr)) (Finite (topY fr - bottomY fr));
          distanceFromCenter = sqrt (xOf v * xOf v + zOf v * zOf v)
      in adjustedOffset (actualOffset (blendedOffset e normalizedY))
           distanceFromCenter (bodyWidth fr))"

text \<open>
  Lines 205-288: a kept vertex is inflated along its normalised normal.  With a
  displacement that is not finite the source stores NaN in the three coordinates
  (\<open>normal.x * NaN\<close> is NaN also when \<open>normal.x\<close> is 0).  The positions of a geometry
  are reals in the model: such a vertex is kept where it is, and the garment of a body of
  zero height or width is outside what the positions of the model say.
\<close>

definition inflateVertex :: "BodyFrame \<Rightarrow> Ease \<Rightarrow> vec3 \<Rightarrow> vec3 \<Rightarrow> vec3 \<times> vec3" where
  "inflateVertex fr e v n0 =
     (let nrm = vnormalize n0
      in (case fabricDisplacement fr e v of
            Finite adjusted \<Rightarrow> vadd v (vscale adjusted nrm)
          | _ \<Rightarrow> v,
          nrm))"

text \<open>
  Lines 290-302: a triangle is kept when its three vertices are kept; \<open>oldToNewVertexMap\<close>
  sends a kept vertex to the number of kept vertices before it.
\<close>

definition oldToNew :: "bool list \<Rightarrow> nat \<Rightarrow> nat" where
  "oldToNew inRegion a = length (filter (\<lambda>k. k) (take a inRegion))"

definition keptAt :: "bool list \<Rightarrow> nat \<Rightarrow> bool" where
  "keptAt inRegion a = (a < length inRegion \<and> inRegion ! a)"

definition compactIndex :: "bool list \<Rightarrow> nat list \<Rightarrow> nat list" where
  "compactIndex inRegion oldIndex =
     concat (map (\<lambda>(a, b, c).
                    if keptAt inRegion a \<and> keptAt inRegion b \<and> keptAt inRegion c
                    then [oldToNew inRegion a, oldToNew inRegion b, oldToNew inRegion c]
                    else [])
                 (triples oldIndex))"

text \<open>Lines 155-313: the shirt geometry before any draping.\<close>

definition buildShirtGeometry ::
  "vec3 list \<Rightarrow> vec3 list \<Rightarrow> nat list \<Rightarrow> HybridGarmentOptions \<Rightarrow> BufferGeometry" where
  "buildShirtGeometry oldPositions normals oldIndex opts =
     (let fr = bodyFrame oldPositions opts;
          e = resolveEase opts;
          inRegion = map (vertexInRegion fr) oldPositions;
          kept = filter (\<lambda>(v, n). vertexInRegion fr v) (zip oldPositions normals);
          inflated = map (\<lambda>(v, n). inflateVertex fr e v n) kept
      in \<lparr> position = map fst inflated,
           normal = Some (map snd inflated),
           index = Some (compactIndex inRegion oldIndex) \<rparr>)"

text \<open>
  \<open>buildAdjacencyMap\<close>, lines 462-487.  The map is the list of the neighbour sets of
  the vertices \<open>0 .. count - 1\<close>, each in insertion order; without an index the map is
  empty.  \<open>adjacency.get(a)!.add(b)\<close> throws when an index of a triangle is not a vertex,
  and so does a trailing partial triple.
\<close>

definition addNeighbor :: "nat list list \<Rightarrow> nat \<Rightarrow> nat \<Rightarrow> nat list list" where
  "addNeighbor adj a b = adj[a := (if b \<in> set (adj ! a) then adj ! a else adj ! a @ [b])]"

fun addTriangles :: "nat \<Rightarrow> nat list \<Rightarrow> nat list list \<Rightarrow> js_error + nat list list" where
  "addTriangles n [] adj = Inr adj"
| "addTriangles n (a # b # c # rest) adj =
     (if a < n \<and> b < n \<and> c < n then
        addTriangles n rest
          (addNeighbor (addNeighbor (addNeighbor (addNeighbor (addNeighbor (addNeighbor adj
             a b) a c) b a) b c) c a) c b)
      else Inl TypeError)"
| "addTriangles n (a # rest) adj = Inl TypeError"

definition buildAdjacencyMap :: "BufferGeometry \<Rightarrow> js_error + nat list list" where
  "buildAdjacencyMap g =
     (case index g of
        None \<Rightarrow> Inr []
      | Some idx \<Rightarrow>
          addTriangles (length (position g)) idx (replicate (length (position g)) []))"

text \<open>
  \<open>applyLaplacianSmoothing\<close>, lines 368-412: every pass reads the snapshot
  \<open>tempPositions\<close> and writes the position attribute.
\<close>

definition vdiv :: "vec3 \<Rightarrow> real \<Rightarrow> vec3" where
  "vdiv v k = (xOf v / k, yOf v / k, zOf v / k)"

definition smoothVertex :: "real \<Rightarrow> nat list list \<Rightarrow> vec3 list \<Rightarrow> nat \<Rightarrow> vec3" where
  "smoothVertex lambda adj temp i =
     (if i < length adj \<and> adj ! i \<noteq> [] then
        (let neighbors = adj ! i;
             avg = vdiv (foldl vadd (0, 0, 0) (map (\<lambda>j. temp ! j) neighbors))
                        (real (length neighbors));
             current = temp ! i
         in vadd current (vscale lambda (vsub avg current)))
      else temp ! i)"

definition smoothPass :: "real \<Rightarrow> nat list list \<Rightarrow> vec3 list \<Rightarrow> vec3 list" where
  "smoothPass lambda adj ps = map (smoothVertex lambda adj ps) [0..<length ps]"

definition applyLaplacianSmoothing ::
  "nat \<Rightarrow> real \<Rightarrow> BufferGeometry \<Rightarrow> js_error + BufferGeometry" where
  "applyLaplacianSmoothing iterations lambda g =
     (case buildAdjacencyMap g of
        Inl e \<Rightarrow> Inl e
      | Inr adj \<Rightarrow> Inr (g\<lparr> position := (smoothPass lambda adj ^^ iterations) (position g) \<rparr>))"

text \<open>\<open>applyGravityDrape\<close>, lines 417-429.\<close>

definition gravityVertex :: "real \<Rightarrow> real \<Rightarrow> real \<Rightarrow> vec3 \<Rightarrow> vec3" where
  "gravityVertex strength ymin height v =
     (let y = yOf v;
          normalizedY = (y - ymin) / height;
          gravityWeight = 1 - normalizedY
      in (xOf v, y - strength * gravityWeight * 0.05, zOf v))"

definition applyGravityDrape :: "real \<Rightarrow> BufferGeometry \<Rightarrow> js_error + BufferGeometry" where
  "applyGravityDrape strength g =
     (let ymin = bboxMinY g;
          height = bboxMaxY g - ymin
      in Inr (g\<lparr> position := map (gravityVertex strength ymin height) (position g) \<rparr>))"

text \<open>\<open>addSubtleWrinkles\<close>, lines 434-457.\<close>

definition subtleWrinkleVertex :: "real \<Rightarrow> vec3 \<Rightarrow> vec3 \<Rightarrow> vec3" where
  "subtleWrinkleVertex intensity v n =
     (let noise = (sin (xOf v * 30) * cos (zOf v * 30) + sin (yOf v * 20)) * 0.5;
          displacement = noise * intensity
      in vadd v (vscale displacement n))"

definition addSubtleWrinkles :: "real \<Rightarrow> BufferGeometry \<Rightarrow> js_error + BufferGeometry" where
  "addSubtleWrinkles intensity g =
     (case normalAttribute g of
        Inl e \<Rightarrow> Inl e
      | Inr ns \<Rightarrow>
          Inr (g\<lparr> position := map2 (subtleWrinkleVertex intensity) (position g) ns \<rparr>))"


subsection \<open>The store, and the order of the passes\<close>

text \<open>
  Geometries are objects of a store, so that what a call writes, and to which object, is
  part of its result.  \<open>objs\<close> maps an address to the geometry that lives there,
  \<open>nextAddr\<close> is the next address \<open>new THREE.BufferGeometry()\<close> hands out, and
  \<open>consoleErrors\<close> collects the arguments of \<open>console.error\<close> (the \<open>console.log\<close>
  diagnostics are not recorded).  A \<open>THREE.Mesh\<close> refers to its geometry by address and
  carries the side of its material; a \<open>THREE.Group\<close> is the list of its child meshes.
\<close>

type_synonym addr = nat

record World =
  objs :: "addr \<Rightarrow> BufferGeometry option"
  nextAddr :: addr
  consoleErrors :: "string list"

record Mesh =
  geometry :: addr
  side :: material_side

type_synonym Group = "Mesh list"

text \<open>
  A stage either returns the state it leaves behind or throws; every stage of this code
  that throws does so before its first write.  \<open>runStages\<close> runs stages in list order and
  stops at the first throw, keeping the state reached.
\<close>

type_synonym 'w stage = "'w \<Rightarrow> js_error + 'w"

fun runStages :: "'w stage list \<Rightarrow> 'w \<Rightarrow> 'w \<times> js_error option" where
  "runStages [] w = (w, None)"
| "runStages (f # fs) w =
     (case f w of
        Inl e \<Rightarrow> (w, Some e)
      | Inr w' \<Rightarrow> runStages fs w')"

definition skipStage :: "'w stage" where
  "skipStage w = Inr w"

text \<open>
  The passes the pipeline calls, as the functions of a record, so that the order in which
  \<open>createHybridTShirt\<close> and \<open>applyRealisticFabricPhysics\<close> call them is a property of the
  pipeline alone.
\<close>

record 'w Passes =
  laplacianSmoothingPass :: "nat \<Rightarrow> real \<Rightarrow> 'w stage"
  gravityDrapePass :: "real \<Rightarrow> 'w stage"
  subtleWrinklesPass :: "real \<Rightarrow> 'w stage"
  stretchZonesPass :: "'w stage"
  fabricWeightPass :: "fabricType \<Rightarrow> 'w stage"
  seamTensionPass :: "'w stage"
  collisionResponsePass :: "real \<Rightarrow> 'w stage"
  dynamicWrinklesPass :: "real \<Rightarrow> 'w stage"
  computeVertexNormalsPass :: "'w stage"

record PhysicsOptions =
  fabricTypeOpt :: "fabricType option"
  enableStretch :: "bool option"
  enableCollision :: "bool option"
  enableWeight :: "bool option"
  enableSeams :: "bool option"
  enableDynamicWrinkles :: "bool option"

text \<open>\<open>applyRealisticFabricPhysics\<close>, \<open>unnamed/part_010\<close> lines 368-417, steps 1 to 5.\<close>

definition applyRealisticFabricPhysics :: "'w Passes \<Rightarrow> PhysicsOptions \<Rightarrow> 'w stage list" where
  "applyRealisticFabricPhysics P options =
     [ if orElse (enableStretch options) True then stretchZonesPass P else skipStage,
       if orElse (enableWeight options) True
       then fabricWeightPass P (orElse (fabricTypeOpt options) medium) else skipStage,
       if orElse (enableSeams options) True then seamTensionPass P else skipStage,
       if orElse (enableCollision options) True
       then collisionResponsePass P 0.015 else skipStage,
       if orElse (enableDynamicWrinkles options) True
       then dynamicWrinklesPass P 0.004 else skipStage ]"

text \<open>The options \<open>createHybridTShirt\<close> passes at lines 329-336.\<close>

definition hybridPhysicsOptions :: PhysicsOptions where
  "hybridPhysicsOptions =
     \<lparr> fabricTypeOpt = Some medium, enableStretch = Some True, enableCollision = Some True,
       enableWeight = Some True, enableSeams = Some True,
       enableDynamicWrinkles = Some True \<rparr>"

text \<open>\<open>createHybridTShirt\<close>, lines 315-338: everything applied to the new geometry.\<close>

definition drapeStages :: "'w Passes \<Rightarrow> HybridGarmentOptions \<Rightarrow> 'w stage list" where
  "drapeStages P opts =
     [ if orElse (smoothing opts) True then laplacianSmoothingPass P 3 0.4 else skipStage,
       if orElse (gravity opts) True then gravityDrapePass P 0.01 else skipStage,
       if orElse (wrinkles opts) True then subtleWrinklesPass P 0.002 else skipStage ]
     @ applyRealisticFabricPhysics P hybridPhysicsOptions
     @ [ computeVertexNormalsPass P ]"

text \<open>
  The passes on the store.  Each one reads the garment geometry at \<open>g\<close>, computes on it,
  and writes the result back to \<open>g\<close>; a pass that raycasts reads the avatar's geometry from
  the store when it runs.  (The per-vertex loops are modelled for a garment geometry that
  is not the avatar's own geometry, which is the case for the fresh geometry of
  \<open>createHybridTShirt\<close>.)
\<close>

definition avatarCast :: "World \<Rightarrow> Mesh \<Rightarrow> raycast" where
  "avatarCast w avatarMesh =
     (case objs w (geometry avatarMesh) of
        None \<Rightarrow> (\<lambda>origin direction. None)
      | Some bodyGeometry \<Rightarrow> intersectObject bodyGeometry (side avatarMesh))"

definition onGeometry ::
  "addr \<Rightarrow> (World \<Rightarrow> BufferGeometry \<Rightarrow> js_error + BufferGeometry) \<Rightarrow> World stage" where
  "onGeometry g f w =
     (case objs w g of
        None \<Rightarrow> Inl TypeError
      | Some geom \<Rightarrow>
          (case f w geom of
             Inl e \<Rightarrow> Inl e
           | Inr geom' \<Rightarrow> Inr (w\<lparr> objs := (objs w)(g \<mapsto> geom') \<rparr>)))"

definition storePasses :: "Mesh \<Rightarrow> addr \<Rightarrow> World Passes" where
  "storePasses avatarMesh g =
     \<lparr> laplacianSmoothingPass = (\<lambda>iterations lambda.
         onGeometry g (\<lambda>w. applyLaplacianSmoothing iterations lambda)),
       gravityDrapePass = (\<lambda>strength. onGeometry g (\<lambda>w. applyGravityDrape strength)),
       subtleWrinklesPass = (\<lambda>intensity. onGeometry g (\<lambda>w. addSubtleWrinkles intensity)),
       stretchZonesPass = onGeometry g (\<lambda>w. applyStretchZones (avatarCast w avatarMesh)),
       fabricWeightPass = (\<lambda>ft. onGeometry g (\<lambda>w. applyFabricWeight ft)),
       seamTensionPass = onGeometry g (\<lambda>w. applySeamTension),
       collisionResponsePass = (\<lambda>minDistance.
         onGeometry g (\<lambda>w. applyCollisionResponse (avatarCast w avatarMesh) minDistance)),
       dynamicWrinklesPass = (\<lambda>intensity.
         onGeometry g (\<lambda>w. applyDynamicWrinkles (avatarCast w avatarMesh) intensity)),
       computeVertexNormalsPass = onGeometry g (\<lambda>w geom. Inr (computeVertexNormals geom)) \<rparr>"

text \<open>
  \<open>createHybridTShirt\<close>, lines 46-363.  The avatar's geometry gets a normal attribute
  computed in place when it has none (lines 104-106); a geometry without an index is
  reported with \<open>console.error\<close> and answered with an empty group (lines 110-113);
  otherwise the shirt geometry is allocated, draped, and returned as the single mesh of
  the group, with a double-sided material.  (The first branch, an avatar whose geometry
  is no object of the store, cannot arise in JavaScript; it makes the function total.)
\<close>

definition indexError :: string where
  "indexError = ''[HybridGarment] Geometry must be indexed''"

definition createHybridTShirt ::
  "World \<Rightarrow> Mesh \<Rightarrow> HybridGarmentOptions \<Rightarrow> World \<times> (js_error + Group)" where
  "createHybridTShirt w avatarMesh opts =
     (case objs w (geometry avatarMesh) of
        None \<Rightarrow> (w, Inl TypeError)
      | Some geometry0 \<Rightarrow>
          (let geom = (if normal geometry0 = None then computeVertexNormals geometry0
                       else geometry0);
               w1 = (if normal geometry0 = None
                     then w\<lparr> objs := (objs w)(geometry avatarMesh \<mapsto> geom) \<rparr> else w)
           in case index geom of
                None \<Rightarrow> (w1\<lparr> consoleErrors := consoleErrors w1 @ [indexError] \<rparr>, Inr [])
              | Some oldIndex \<Rightarrow>
                  (let shirtGeometry =
                         buildShirtGeometry (position geom) (the (normal geom)) oldIndex opts;
                       g = nextAddr w1;
                       w2 = w1\<lparr> objs := (objs w1)(g \<mapsto> shirtGeometry), nextAddr := Suc g \<rparr>
                   in case runStages (drapeStages (storePasses avatarMesh g) opts) w2 of
                        (w3, Some e) \<Rightarrow> (w3, Inl e)
                      | (w3, None) \<Rightarrow> (w3, Inr [\<lparr> geometry = g, side = DoubleSide \<rparr>]))))"

section \<open>The basic fitting engine: \<open>src/lib/3d/garmentFitting.ts\<close>\<close>

text \<open>\<open>buildNeighborMap\<close>, lines 198-225: the same construction as \<open>buildAdjacencyMap\<close>.\<close>

definition buildNeighborMap :: "BufferGeometry \<Rightarrow> js_error + nat list list" where
  "buildNeighborMap g =
     (case index g of
        None \<Rightarrow> Inr []
      | Some idx \<Rightarrow>
          addTriangles (length (position g)) idx (replicate (length (position g)) []))"

text \<open>
  \<open>laplacianSmoothing\<close>, lines 124-193, on the geometry of the mesh.  Without an index
  it reports with \<open>console.error\<close> and returns; the first component of the result is what
  it wrote to \<open>console.error\<close>.
\<close>

definition smoothingError :: string where
  "smoothingError = ''[GarmentFitting] Missing position or index attributes''"

definition laplacianSmoothing ::
  "BufferGeometry \<Rightarrow> nat \<Rightarrow> real \<Rightarrow> string list \<times> (js_error + BufferGeometry)" where
  "laplacianSmoothing g iterations lambda =
     (case index g of
        None \<Rightarrow> ([smoothingError], Inr g)
      | Some idx \<Rightarrow>
          (case buildNeighborMap g of
             Inl e \<Rightarrow> ([], Inl e)
           | Inr neighbors \<Rightarrow>
               ([], Inr (g\<lparr> position :=
                             (smoothPass lambda neighbors ^^ iterations) (position g) \<rparr>))))"

section \<open>Inputs and measures used by the statements below\<close>

subsection \<open>The order of the passes\<close>

text \<open>
  The names of the passes, and passes that do nothing but append their own name to a
  trace: run through the pipeline, they record the order in which it calls its passes.
\<close>

datatype pass_name =
    LaplacianSmoothing | GravityDrape | SubtleWrinkles | StretchZones | FabricWeight
  | SeamTension | CollisionResponse | DynamicWrinkles | ComputeVertexNormals

definition record_pass :: "pass_name \<Rightarrow> pass_name list stage" where
  "record_pass p t = Inr (t @ [p])"

definition tracePasses :: "pass_name list Passes" where
  "tracePasses =
     \<lparr> laplacianSmoothingPass = (\<lambda>iterations lambda. record_pass LaplacianSmoothing),
       gravityDrapePass = (\<lambda>strength. record_pass GravityDrape),
       subtleWrinklesPass = (\<lambda>intensity. record_pass SubtleWrinkles),
       stretchZonesPass = record_pass StretchZones,
       fabricWeightPass = (\<lambda>ft. record_pass FabricWeight),
       seamTensionPass = record_pass SeamTension,
       collisionResponsePass = (\<lambda>minDistance. record_pass CollisionResponse),
       dynamicWrinklesPass = (\<lambda>intensity. record_pass DynamicWrinkles),
       computeVertexNormalsPass = record_pass ComputeVertexNormals \<rparr>"

text \<open>
  The order the specification states (data flow of its section 2 and the list of its
  section 4.5): the four draping passes stretch zones, fabric weight, seam tension and
  dynamic wrinkles, then the collision resolver, then the mesh smoother last.
\<close>

definition specPassOrder :: "pass_name list" where
  "specPassOrder = [StretchZones, FabricWeight, SeamTension, DynamicWrinkles, CollisionResponse, LaplacianSmoothing]"

text \<open>\<open>createHybridTShirt(avatarMesh)\<close> with no options given.\<close>

definition defaultOptions :: HybridGarmentOptions where
  "defaultOptions = \<lparr> opt_chestEase = None, opt_waistEase = None, opt_shoulderEase = None,
     garmentMeasurements = None, bodyMeasurements = None, gravity = None, smoothing = None, wrinkles = None \<rparr>"

definition passTrace :: "HybridGarmentOptions \<Rightarrow> pass_name list" where
  "passTrace opts = fst (runStages (drapeStages tracePasses opts) [])"

subsection \<open>Stores\<close>

text \<open>
  \<open>sameElsewhere g w w'\<close>: from \<open>w\<close> to \<open>w'\<close> nothing but the object at \<open>g\<close> was written.
  \<open>wellFormed\<close>: every live object lies below the allocation pointer.
\<close>

definition sameElsewhere :: "addr \<Rightarrow> World \<Rightarrow> World \<Rightarrow> bool" where
  "sameElsewhere g w w' = ((\<forall>a. a \<noteq> g \<longrightarrow> objs w' a = objs w a)
      \<and> nextAddr w' = nextAddr w \<and> consoleErrors w' = consoleErrors w)"

text \<open>
  A triangle without an index (with normals), the same triangle with an index and no
  normals, the store that holds one geometry at address 0, and the avatar mesh on it.
\<close>

definition soupGeometry :: BufferGeometry where
  "soupGeometry = \<lparr> position = [(0, 0, 0), (1, 0, 0), (0, 1, 0)],
       normal = Some [(0, 0, 1), (0, 0, 1), (0, 0, 1)], index = None \<rparr>"

definition bareTriangle :: BufferGeometry where
  "bareTriangle = \<lparr> position = [(0, 0, 0), (1, 0, 0), (0, 1, 0)],
       normal = None, index = Some [0, 1, 2] \<rparr>"

definition worldWith :: "BufferGeometry \<Rightarrow> World" where
  "worldWith geom = \<lparr> objs = (\<lambda>a. None)(0 \<mapsto> geom), nextAddr = 1, consoleErrors = [] \<rparr>"

definition avatarAt0 :: Mesh where
  "avatarAt0 = \<lparr> geometry = 0, side = FrontSide \<rparr>"

text \<open>The avatar's geometry after lines 104-106.\<close>

definition bodyAfter :: "BufferGeometry \<Rightarrow> BufferGeometry" where
  "bodyAfter body = (if normal body = None then computeVertexNormals body else body)"

definition wellFormed :: "World \<Rightarrow> bool" where
  "wellFormed w = (\<forall>a. objs w a \<noteq> None \<longrightarrow> a < nextAddr w)"

subsection \<open>A body with a steep flap next to a flat torso patch\<close>

text \<open>
  The body has two triangles, each with its exact unit face normal: a flat patch in the
  plane \<open>z = -1/40\<close> inside the torso band (vertices 0, 1, 2), and a steep flap
  \<open>z = -1/40 + 6 (1/40 - x)\<close> beside its top corner, whose three vertices lie outside
  the band (vertices 3, 4, 5).  The bounding box is \<open>y \<in> [-3/2, 1/2]\<close>,
  \<open>x \<in> [3/200, 13/200]\<close>.  The options give a manual ease of 2.5 cm everywhere and
  switch the three basic draping passes off; the physics passes cannot be switched off.
\<close>

definition cliffBody :: BufferGeometry where
  "cliffBody =
     \<lparr> position = [(1/40, 0, -1/40), (13/200, -3/10, -1/40), (1/40, -9/20, -1/40),
                   (1/40, 1/4, -1/40), (3/200, 1/2, 7/200), (3/200, -3/2, 7/200)],
       normal = Some [(0, 0, 1), (0, 0, 1), (0, 0, 1),
                      (6 / sqrt 37, 0, 1 / sqrt 37), (6 / sqrt 37, 0, 1 / sqrt 37),
                      (6 / sqrt 37, 0, 1 / sqrt 37)],
       index = Some [0, 2, 1, 3, 4, 5] \<rparr>"

definition cliffOptions :: HybridGarmentOptions where
  "cliffOptions =
     \<lparr> opt_chestEase = Some (5/2), opt_waistEase = Some (5/2), opt_shoulderEase = Some (5/2),
       garmentMeasurements = None, bodyMeasurements = None,
       gravity = Some False, smoothing = Some False, wrinkles = Some False \<rparr>"

abbreviation "zDown \<equiv> (0::real, 0::real, -1::real)"

abbreviation "zUp \<equiv> (0::real, 0::real, 1::real)"

text \<open>
  The shirt geometry of that body as built, after the weight pass, and after the
  dynamic wrinkles have shifted vertex 0 by \<open>s / 250\<close> against the x axis.
\<close>

definition shirt0 :: BufferGeometry where
  "shirt0 = \<lparr> position = [(1/40, 0, 0), (13/200, -3/10, 0), (1/40, -9/20, 0)],
       normal = Some [(0, 0, 1), (0, 0, 1), (0, 0, 1)], index = Some [0, 2, 1] \<rparr>"

definition shirt1 :: BufferGeometry where
  "shirt1 = \<lparr> position = [(1/40, 0, 0), (13/200, -62039/200000, 0), (1/40, -37209/80000, 0)],
       normal = Some [(0, 0, 1), (0, 0, 1), (0, 0, 1)], index = Some [0, 2, 1] \<rparr>"

definition shirt2 :: "real \<Rightarrow> BufferGeometry" where
  "shirt2 s = \<lparr> position = [(1/40 - s / 250, 0, 0), (13/200, -62039/200000, 0), (1/40, -37209/80000, 0)],
       normal = Some [(0, 0, 1), (0, 0, 1), (0, 0, 1)], index = Some [0, 2, 1] \<rparr>"

abbreviation "cliffCast \<equiv> intersectObject cliffBody FrontSide"

text \<open>The wrinkle pattern at vertex 0, \<open>sin(40 x) cos(35 y) sin(60 x)\<close> at \<open>x = 1/40, y = 0\<close>.\<close>

definition wrinkleShift :: real where
  "wrinkleShift = sin 1 * sin (3/2)"

definition cliffWorld :: World where
  "cliffWorld = worldWith cliffBody"

definition shirtWorld :: "BufferGeometry \<Rightarrow> World" where
  "shirtWorld G = \<lparr> objs = (\<lambda>a. None)(0 \<mapsto> cliffBody, 1 \<mapsto> G), nextAddr = 2, consoleErrors = [] \<rparr>"


subsection \<open>Small inputs for the collision and offset statements\<close>

text \<open>
  A one-vertex garment; a body that every ray hits at the same distance; a body of two
  parallel sheets facing \<open>+z\<close>, at \<open>z = 0.099\<close> and \<open>z = 0.105\<close>, behind and in front
  of that vertex; the frame of a body 1.7 m tall and 0.5 m wide; and an ease of minus 3 cm
  (scenario B of the specification).
\<close>

definition probeGeometry :: BufferGeometry where
  "probeGeometry = \<lparr> position = [(0, 1, 1/10)], normal = Some [(0, 0, 1)], index = Some [] \<rparr>"

definition constantCast :: "real \<Rightarrow> raycast" where
  "constantCast d origin direction = Some d"






section \<open>Properties of the fit analysis\<close>

lemmas fit_eval_defs =
  analyzeFit_def mkGarment_def scenarioBody_def fitMetric_def classifyFit_def
  truthy_def optList_def worstOf_def Let_def

text \<open>
  C7.  \<open>classifyFit\<close> follows the thresholds \<open>-5, 2, 10, 20\<close>: below \<open>-5\<close> it is
  \<open>too_tight\<close>, from \<open>-5\<close> up to \<open>2\<close> it is \<open>tight\<close>, from \<open>2\<close> up to \<open>10\<close> it is
  \<open>perfect\<close>, from \<open>10\<close> up to \<open>20\<close> it is \<open>loose\<close>, and from \<open>20\<close> on it is
  \<open>too_loose\<close>; and it is a non-decreasing step function: for \<open>p1 < p2\<close> the category
  index of \<open>classifyFit p1\<close> is at most that of \<open>classifyFit p2\<close>.
\<close>

theorem classifyFit_thresholds_monotone:
  "(p < -5 \<longrightarrow> classifyFit p = too_tight)
   \<and> (-5 \<le> p \<and> p < 2 \<longrightarrow> classifyFit p = tight)
   \<and> (2 \<le> p \<and> p < 10 \<longrightarrow> classifyFit p = perfect)
   \<and> (10 \<le> p \<and> p < 20 \<longrightarrow> classifyFit p = loose)
   \<and> (20 \<le> p \<longrightarrow> classifyFit p = too_loose)
   \<and> (p1 < p2 \<longrightarrow> category_index (classifyFit p1) \<le> category_index (classifyFit p2))"
  by (simp add: classifyFit_def)

theorem classifyFit_thresholds_monotone_witness:
  "classifyFit (-6) = too_tight \<and> classifyFit 0 = tight \<and> classifyFit 5 = perfect
   \<and> classifyFit 15 = loose \<and> classifyFit 20 = too_loose
   \<and> (1::real) < 12
   \<and> category_index (classifyFit 1) \<le> category_index (classifyFit 12)"
  using classifyFit_thresholds_monotone [of "-6" 1 12]
        classifyFit_thresholds_monotone [of 0 1 12]
        classifyFit_thresholds_monotone [of 5 1 12]
        classifyFit_thresholds_monotone [of 15 1 12]
        classifyFit_thresholds_monotone [of 20 1 12]
  by simp

lemma worstOf_spec:
  "worstOf x xs \<in> set (x # xs)
   \<and> (\<forall>s\<in>set (x # xs). statusPriority (worstOf x xs) \<le> statusPriority s)"
  unfolding worstOf_def
proof (induction xs arbitrary: x)
  case Nil
  show ?case by simp
next
  case (Cons y ys)
  let ?x' = "if statusPriority y < statusPriority x then y else x"
  from Cons.IH [of ?x'] show ?case by (auto split: if_splits)
qed

text \<open>
  C6 as stated fails: the length status is computed but never enters the overall status.
  For a garment of chest 100 and length 50 on the scenario body (chest 95, torso length
  68) the chest is \<open>perfect\<close>, the length is \<open>too_tight\<close>, and the overall status is
  \<open>perfect\<close>, which is not the worst of the computed statuses.
\<close>

theorem analyzeFit_overall_ignores_length_counterexample:
  "overall (analyzeFit shortGarment scenarioBody) = perfect
   \<and> map_option status (lengthFit (analyzeFit shortGarment scenarioBody)) = Some too_tight
   \<and> statusPriority too_tight < statusPriority perfect"
  by (simp add: shortGarment_def fit_eval_defs)

text \<open>
  C6 as amended.  The overall status of \<open>analyzeFit\<close> is the worst (lowest
  \<open>statusPriority\<close>, with \<open>too_tight = too_loose\<close> below \<open>tight = loose\<close> below
  \<open>perfect\<close>) among the key statuses only: chest always, waist when the garment waist is
  present and non-zero, shoulder when the garment shoulder width is present and non-zero.
  The length status is computed when the body torso length is present and non-zero, and
  it does not take part: changing the garment length or the torso length never changes
  the overall status.
\<close>

theorem analyzeFit_overall_worst_of_key_statuses:
  "overall (analyzeFit g b) \<in> set (keyStatuses (analyzeFit g b))
   \<and> (\<forall>s\<in>set (keyStatuses (analyzeFit g b)).
         statusPriority (overall (analyzeFit g b)) \<le> statusPriority s)
   \<and> (waistFit (analyzeFit g b) \<noteq> None \<longleftrightarrow> truthy (g_waist g))
   \<and> (shoulderFit (analyzeFit g b) \<noteq> None \<longleftrightarrow> truthy (g_shoulderWidth g))
   \<and> (lengthFit (analyzeFit g b) \<noteq> None \<longleftrightarrow> truthy (b_torsoLength b))
   \<and> overall (analyzeFit (g\<lparr>g_length := l\<rparr>) (b\<lparr>b_torsoLength := t\<rparr>))
       = overall (analyzeFit g b)"
proof -
  let ?r = "analyzeFit g b"
  have k: "keyStatuses ?r =
      status (chestFit ?r) # map status (optList (waistFit ?r) @ optList (shoulderFit ?r))"
    by (simp add: keyStatuses_def)
  have o: "overall ?r =
      worstOf (status (chestFit ?r))
        (map status (optList (waistFit ?r) @ optList (shoulderFit ?r)))"
    by (simp add: analyzeFit_def Let_def)
  have a: "overall ?r \<in> set (keyStatuses ?r)
      \<and> (\<forall>s\<in>set (keyStatuses ?r). statusPriority (overall ?r) \<le> statusPriority s)"
    unfolding k o by (rule worstOf_spec)
  have p: "(waistFit ?r \<noteq> None \<longleftrightarrow> truthy (g_waist g))
      \<and> (shoulderFit ?r \<noteq> None \<longleftrightarrow> truthy (g_shoulderWidth g))
      \<and> (lengthFit ?r \<noteq> None \<longleftrightarrow> truthy (b_torsoLength b))"
    by (simp add: analyzeFit_def Let_def)
  have f: "overall (analyzeFit (g\<lparr>g_length := l\<rparr>) (b\<lparr>b_torsoLength := t\<rparr>)) = overall ?r"
    by (simp add: analyzeFit_def Let_def)
  from a p f show ?thesis by blast
qed

text \<open>Scenario A of the specification: perfect chest, loose waist, perfect shoulder.\<close>

theorem analyzeFit_overall_worst_of_key_statuses_witness:
  "overall (analyzeFit (measurements sizeM) scenarioBody) = loose
   \<and> keyStatuses (analyzeFit (measurements sizeM) scenarioBody) = [perfect, loose, perfect]
   \<and> statusPriority loose \<le> statusPriority perfect"
  using analyzeFit_overall_worst_of_key_statuses [of "measurements sizeM" scenarioBody]
  by (simp add: sizeM_def keyStatuses_def fit_eval_defs)

section \<open>Properties of the size recommender\<close>

lemma scan_keeps_best:
  "\<forall>s\<in>set xs. fitScore b s \<le> bestScore st \<Longrightarrow>
   foldl (scanStep b) st xs =
     st\<lparr> alternatives := alternatives st @
           map (\<lambda>s. \<lparr> alt_size = size_name s,
                      alt_reason = Plain (recommendation (analyzeFit (measurements s) b)) \<rparr>)
               (filter (\<lambda>s. fitScore b s > 0
                            \<and> notExtreme (overall (analyzeFit (measurements s) b))) xs) \<rparr>"
proof (induction xs arbitrary: st)
  case Nil
  show ?case by simp
next
  case (Cons x xs)
  have le: "fitScore b x \<le> bestScore st" using Cons.prems by simp
  have step: "bestScore (scanStep b st x) = bestScore st"
    using le by (simp add: scanStep_def fitScore_def Let_def)
  have rest: "\<forall>s\<in>set xs. fitScore b s \<le> bestScore (scanStep b st x)"
    using Cons.prems step by simp
  show ?case
    using Cons.IH [OF rest] le
    by (simp add: scanStep_def fitScore_def Let_def)
qed

lemma scan_best_member:
  "bestSize (foldl (scanStep b) st xs) \<in> insert (bestSize st) (set xs)"
proof (induction xs arbitrary: st)
  case Nil
  show ?case by simp
next
  case (Cons x xs)
  have "bestSize (scanStep b st x) \<in> {bestSize st, x}"
    by (simp add: scanStep_def Let_def)
  with Cons.IH [of "scanStep b st x"] show ?case by auto
qed

lemma scoreM: "fitScore scenarioBody sizeM = 35"
  by (simp add: fitScore_def calculateFitScore_def sizeM_def fit_eval_defs)

lemma scoreS: "fitScore scenarioBody sizeS = -37"
  by (simp add: fitScore_def calculateFitScore_def sizeS_def fit_eval_defs)

lemma overallM: "overall (analyzeFit (measurements sizeM) scenarioBody) = loose"
  by (simp add: sizeM_def fit_eval_defs)

text \<open>
  C9.  The scan loop of \<open>recommendSize\<close> visits the initial candidate again.  When the
  list is non-empty and its first size attains the maximum fit score, with a strictly
  positive score and an overall status that is neither \<open>too_tight\<close> nor \<open>too_loose\<close>,
  the recommended size is that first size (with its own analysis) and the same size is
  also among the returned alternatives.
\<close>

theorem recommendSize_first_best_is_also_alternative:
  assumes "availableSizes = first # rest"
    and "\<forall>s\<in>set availableSizes. fitScore b s \<le> fitScore b first"
    and "0 < fitScore b first"
    and "notExtreme (overall (analyzeFit (measurements first) b))"
  shows "\<exists>r. recommendSize availableSizes b = Inr r
             \<and> recommendedSize r = size_name first
             \<and> analysis r = analyzeFit (measurements first) b
             \<and> size_name first \<in> alt_size ` set (alternativeSizes r)"
proof -
  let ?an = "analyzeFit (measurements first) b"
  let ?init = "\<lparr> bestSize = first, bestAnalysis = ?an,
                  bestScore = calculateFitScore ?an, alternatives = [] \<rparr>"
  have le: "\<forall>s\<in>set (first # rest). fitScore b s \<le> bestScore ?init"
    using assms(1,2) by (simp add: fitScore_def)
  note k = scan_keeps_best [OF le]
  have r: "recommendSize availableSizes b =
      Inr \<lparr> recommendedSize = size_name (bestSize (foldl (scanStep b) ?init (first # rest))),
            analysis = bestAnalysis (foldl (scanStep b) ?init (first # rest)),
            alternativeSizes = take 2 (alternatives (foldl (scanStep b) ?init (first # rest))) \<rparr>"
    unfolding recommendSize_def assms(1) by (simp add: Let_def)
  show ?thesis
    unfolding r k using assms(3,4) by simp
qed

theorem recommendSize_first_best_is_also_alternative_witness:
  "\<exists>r. recommendSize [sizeM, sizeS] scenarioBody = Inr r
       \<and> recommendedSize r = ''M''
       \<and> ''M'' \<in> alt_size ` set (alternativeSizes r)"
proof -
  have n: "size_name sizeM = ''M''" by (simp add: sizeM_def)
  have "\<exists>r. recommendSize [sizeM, sizeS] scenarioBody = Inr r
             \<and> recommendedSize r = size_name sizeM
             \<and> analysis r = analyzeFit (measurements sizeM) scenarioBody
             \<and> size_name sizeM \<in> alt_size ` set (alternativeSizes r)"
    using recommendSize_first_best_is_also_alternative
            [of "[sizeM, sizeS]" sizeM "[sizeS]" scenarioBody]
    by (simp add: scoreM scoreS overallM notExtreme_def)
  then show ?thesis unfolding n by blast
qed

text \<open>
  C10.  \<open>recommendSize\<close> is total only on non-empty candidate lists: on the empty list
  it faults at once (the read of \<open>availableSizes[0].measurements\<close> throws before the
  loop), and on every non-empty list it returns, and the recommended size is the size of
  an element of the list.
\<close>

theorem recommendSize_faults_on_empty_returns_member_otherwise:
  "recommendSize [] b = Inl TypeError
   \<and> (availableSizes \<noteq> [] \<longrightarrow>
        (\<exists>r. recommendSize availableSizes b = Inr r
             \<and> recommendedSize r \<in> size_name ` set availableSizes))"
proof -
  have e: "recommendSize [] b = Inl TypeError" by (simp add: recommendSize_def)
  have n: "\<exists>r. recommendSize (x # xs) b = Inr r
                \<and> recommendedSize r \<in> size_name ` set (x # xs)" for x xs
  proof -
    let ?an = "analyzeFit (measurements x) b"
    let ?init = "\<lparr> bestSize = x, bestAnalysis = ?an,
                    bestScore = calculateFitScore ?an, alternatives = [] \<rparr>"
    let ?st = "foldl (scanStep b) ?init (x # xs)"
    have "bestSize ?st \<in> insert (bestSize ?init) (set (x # xs))"
      by (rule scan_best_member)
    then have "bestSize ?st \<in> set (x # xs)" by (simp del: foldl_Cons)
    then have m: "size_name (bestSize ?st) \<in> size_name ` set (x # xs)" by (rule imageI)
    have r: "recommendSize (x # xs) b =
        Inr \<lparr> recommendedSize = size_name (bestSize ?st),
              analysis = bestAnalysis ?st,
              alternativeSizes = take 2 (alternatives ?st) \<rparr>"
      by (simp add: recommendSize_def Let_def del: foldl_Cons)
    show ?thesis unfolding r using m by (simp del: foldl_Cons)
  qed
  from e n show ?thesis by (cases availableSizes) auto
qed

theorem recommendSize_faults_on_empty_returns_member_otherwise_witness:
  "[sizeS, sizeM] \<noteq> []
   \<and> (\<exists>r. recommendSize [sizeS, sizeM] scenarioBody = Inr r
           \<and> recommendedSize r \<in> {''S'', ''M''})"
  using recommendSize_faults_on_empty_returns_member_otherwise
          [of scenarioBody "[sizeS, sizeM]"]
  by (simp add: sizeM_def sizeS_def)

section \<open>The fabric offset\<close>

text \<open>On finite numbers the three steps of the offset are the real ones.\<close>

lemma blendedOffset_Finite:
  "blendedOffset e (Finite u) =
     Finite (if u > 0.8 then shoulderEase e / 100
             else if u > 0.5 then
               chestEase e / 100 + (shoulderEase e / 100 - chestEase e / 100) * ((u - 0.5) / 0.3)
             else waistEase e / 100 + (chestEase e / 100 - waistEase e / 100) * (u / 0.5))"
  by (simp add: blendedOffset_def jsGreater_def jsMinus_def Let_def)

lemma actualOffset_Finite:
  "actualOffset (Finite f) = Finite (if f < 0 then 0.003 else max 0.003 (min 0.05 f))"
  by (simp add: actualOffset_def jsGreater_def minClearance_def maxClearance_def)

lemma adjustedOffset_Finite:
  assumes "w \<noteq> 0"
  shows "adjustedOffset (Finite a) d w =
     Finite (if a > 0.01 then max (a * (0.6 + 0.4 * min (d / (w / 2)) 1)) 0.003 else a)"
  using assms
  by (simp add: adjustedOffset_def jsGreater_def minClearance_def Let_def min_def max_def)



text \<open>
  On a body of zero height the displacement of a kept vertex is NaN, and the model keeps
  the vertex where it is.  On a body of zero width the displacement of a vertex on the
  vertical axis is NaN when its clamped offset exceeds 0.01.
\<close>

lemma fabricDisplacement_flat_body:
  assumes "topY fr = bottomY fr" and "yOf v = bottomY fr"
  shows "fabricDisplacement fr e v = NaN" and "fst (inflateVertex fr e v n0) = v"
proof -
  show f: "fabricDisplacement fr e v = NaN"
    using assms
    by (simp add: fabricDisplacement_def blendedOffset_def actualOffset_def adjustedOffset_def
        jsGreater_def signedInfinity_def Let_def)
  show "fst (inflateVertex fr e v n0) = v"
    by (simp add: inflateVertex_def Let_def f)
qed

lemma fabricDisplacement_thin_body:
  assumes "bodyWidth fr = 0" and "xOf v = 0" and "zOf v = 0"
    and "actualOffset (blendedOffset e
           (jsDivide (Finite (yOf v - bottomY fr)) (Finite (topY fr - bottomY fr)))) = Finite a"
    and "a > 0.01"
  shows "fabricDisplacement fr e v = NaN"
  using assms
  by (simp add: fabricDisplacement_def adjustedOffset_def jsGreater_def signedInfinity_def Let_def)


section \<open>The collision resolver\<close>

lemma applyCollisionResponse_positions:
  assumes "normal g = Some ns"
  shows "\<exists>g'. applyCollisionResponse cast m g = Inr g'
     \<and> position g' = map2 (collisionVertex cast m) (position g) ns \<and> index g' = index g"
  using assms
  by (simp add: applyCollisionResponse_def normalAttribute_def Let_def computeVertexNormals_def)

text \<open>
  C5.  In the collision resolver called with the minimum distance 0.015, a garment vertex
  whose inward ray hits the body at nearest distance \<open>d < 0.015\<close> is moved along its
  normal by exactly \<open>(0.015 - d) * 1.2\<close>; a vertex whose ray hits at \<open>d \<ge> 0.015\<close> or
  misses is left where it is; and the call returns without raising.
\<close>

theorem collision_response_push:
  assumes "normal g = Some ns" and "length ns = length (position g)" and "i < length (position g)"
  shows "\<exists>g'. applyCollisionResponse cast 0.015 g = Inr g'
     \<and> length (position g') = length (position g)
     \<and> position g' ! i =
        (case cast (position g ! i) (vneg (ns ! i)) of
           None \<Rightarrow> position g ! i
         | Some d \<Rightarrow>
             if d < 0.015 then vadd (position g ! i) (vscale ((0.015 - d) * 1.2) (ns ! i))
             else position g ! i)"
proof -
  obtain g' where g': "applyCollisionResponse cast 0.015 g = Inr g'"
     "position g' = map2 (collisionVertex cast 0.015) (position g) ns"
    using applyCollisionResponse_positions[OF assms(1)] by blast
  have len: "length (position g') = length (position g)" using g'(2) assms(2) by simp
  have "position g' ! i = collisionVertex cast 0.015 (position g ! i) (ns ! i)"
    using g'(2) assms(2,3) by simp
  then show ?thesis using g'(1) len
    by (simp add: collisionVertex_def Let_def split: option.splits)
qed

section \<open>Meshes without a triangle index\<close>

lemma sameElsewhere_refl: "sameElsewhere g w w" by (simp add: sameElsewhere_def)

lemma sameElsewhere_trans: "sameElsewhere g w w' \<Longrightarrow> sameElsewhere g w' w'' \<Longrightarrow> sameElsewhere g w w''"
  by (simp add: sameElsewhere_def)

lemma onGeometry_frame: "onGeometry g f w = Inr w' \<Longrightarrow> sameElsewhere g w w'"
  by (auto simp: onGeometry_def sameElsewhere_def split: option.splits sum.splits)

lemma skipStage_frame: "skipStage w = Inr w' \<Longrightarrow> sameElsewhere g w w'"
  by (simp add: skipStage_def sameElsewhere_def)

lemma runStages_frame:
  assumes "\<forall>f\<in>set fs. \<forall>w w'. f w = Inr w' \<longrightarrow> sameElsewhere g w w'"
  shows "sameElsewhere g w (fst (runStages fs w))"
  using assms
proof (induction fs arbitrary: w)
  case Nil
  show ?case by (simp add: sameElsewhere_refl)
next
  case (Cons f fs)
  show ?case
  proof (cases "f w")
    case (Inl e)
    then show ?thesis by (simp add: sameElsewhere_refl)
  next
    case (Inr w1)
    have a: "sameElsewhere g w w1" using Cons.prems Inr by simp
    have b: "sameElsewhere g w1 (fst (runStages fs w1))" using Cons.IH Cons.prems by simp
    show ?thesis using Inr sameElsewhere_trans[OF a b] by simp
  qed
qed

lemma drapeStages_frame:
  "\<forall>f\<in>set (drapeStages (storePasses avatarMesh g) opts). \<forall>w w'. f w = Inr w' \<longrightarrow> sameElsewhere g w w'"
  by (auto simp: drapeStages_def applyRealisticFabricPhysics_def storePasses_def hybridPhysicsOptions_def orElse_def
      dest: onGeometry_frame skipStage_frame split: if_splits)

lemma drape_frame:
  "sameElsewhere g w (fst (runStages (drapeStages (storePasses avatarMesh g) opts) w))"
  by (rule runStages_frame[OF drapeStages_frame])

lemma computeVertexNormals_keeps:
  "position (computeVertexNormals g) = position g \<and> index (computeVertexNormals g) = index g
   \<and> normal (computeVertexNormals g) \<noteq> None"
  by (simp add: computeVertexNormals_def Let_def)

lemma createHybridTShirt_unindexed:
  assumes "objs w (geometry avatarMesh) = Some body" and "index body = None"
  shows "createHybridTShirt w avatarMesh opts =
     ((if normal body = None
       then w\<lparr> objs := (objs w)(geometry avatarMesh \<mapsto> computeVertexNormals body) \<rparr>
       else w)\<lparr> consoleErrors := consoleErrors w @ [indexError] \<rparr>, Inr [])"
  using assms computeVertexNormals_keeps[of body]
  by (simp add: createHybridTShirt_def Let_def)

lemma createHybridTShirt_frame:
  assumes live: "objs w (geometry avatarMesh) = Some body"
    and wf: "wellFormed w"
  shows "objs (fst (createHybridTShirt w avatarMesh opts)) (geometry avatarMesh) = Some (bodyAfter body)
     \<and> (\<forall>a. a \<noteq> geometry avatarMesh \<and> a < nextAddr w \<longrightarrow>
            objs (fst (createHybridTShirt w avatarMesh opts)) a = objs w a)
     \<and> (\<forall>grp m. snd (createHybridTShirt w avatarMesh opts) = Inr grp \<and> m \<in> set grp \<longrightarrow>
            geometry m = nextAddr w \<and> objs w (geometry m) = None)"
proof -
  let ?a = "geometry avatarMesh"
  let ?geom = "bodyAfter body"
  let ?w1 = "if normal body = None then w\<lparr> objs := (objs w)(?a \<mapsto> ?geom) \<rparr> else w"
  have w1a: "objs ?w1 ?a = Some ?geom" using live by (simp add: bodyAfter_def)
  have w1o: "\<And>b. b \<noteq> ?a \<Longrightarrow> objs ?w1 b = objs w b" by simp
  have w1n: "nextAddr ?w1 = nextAddr w" by simp
  have alt: "?a < nextAddr w" using live wf by (simp add: wellFormed_def)
  have fresh: "objs w (nextAddr w) = None"
    using wf unfolding wellFormed_def by (metis less_irrefl)
  show ?thesis
  proof (cases "index ?geom")
    case None
    then have r: "createHybridTShirt w avatarMesh opts =
        (?w1\<lparr> consoleErrors := consoleErrors ?w1 @ [indexError] \<rparr>, Inr [])"
      using live by (simp add: createHybridTShirt_def Let_def bodyAfter_def)
    show ?thesis unfolding r using w1a by simp
  next
    case (Some oldIndex)
    let ?g = "nextAddr w"
    let ?shirt = "buildShirtGeometry (position ?geom) (the (normal ?geom)) oldIndex opts"
    let ?w2 = "?w1\<lparr> objs := (objs ?w1)(?g \<mapsto> ?shirt), nextAddr := Suc ?g \<rparr>"
    let ?run = "runStages (drapeStages (storePasses avatarMesh ?g) opts) ?w2"
    have r: "createHybridTShirt w avatarMesh opts =
        (case ?run of (w3, Some e) \<Rightarrow> (w3, Inl e)
                    | (w3, None) \<Rightarrow> (w3, Inr [\<lparr> geometry = ?g, side = DoubleSide \<rparr>]))"
      using live Some by (simp add: createHybridTShirt_def Let_def bodyAfter_def)
    have fr: "sameElsewhere ?g ?w2 (fst ?run)" by (rule drape_frame)
    have f1: "fst (createHybridTShirt w avatarMesh opts) = fst ?run"
      unfolding r by (simp split: prod.splits option.splits)
    have f2: "\<And>grp m. snd (createHybridTShirt w avatarMesh opts) = Inr grp \<Longrightarrow> m \<in> set grp
                 \<Longrightarrow> geometry m = ?g"
      unfolding r by (auto split: prod.splits option.splits)
    have old: "\<And>b. b < nextAddr w \<Longrightarrow> objs (fst ?run) b = objs ?w1 b"
      using fr by (simp add: sameElsewhere_def)
    show ?thesis
      unfolding f1 using old alt w1a w1o f2 fresh by auto
  qed
qed

lemma smoothPass_empty: "smoothPass lambda [] ps = ps"
proof -
  have "smoothVertex lambda [] ps = (\<lambda>i. ps ! i)"
    by (rule ext) (simp add: smoothVertex_def)
  then show ?thesis by (simp add: smoothPass_def map_nth)
qed

lemma smoothPass_empty_iter: "(smoothPass lambda [] ^^ n) ps = ps"
  by (induction n) (simp_all add: smoothPass_empty)

lemma wellFormed_worldWith: "wellFormed (worldWith geom)"
  by (simp add: wellFormed_def worldWith_def)

text \<open>
  C3 as stated fails: for a triangle without an index, \<open>createHybridTShirt\<close> returns
  normally with an empty group after one \<open>console.error\<close>, \<open>laplacianSmoothing\<close>
  returns normally after one \<open>console.error\<close>, and \<open>buildAdjacencyMap\<close> returns an empty
  map; nothing is raised.
\<close>

theorem unindexed_mesh_not_raised_counterexample:
  "snd (createHybridTShirt (worldWith soupGeometry) avatarAt0 defaultOptions) = Inr []
   \<and> consoleErrors (fst (createHybridTShirt (worldWith soupGeometry) avatarAt0 defaultOptions)) = [indexError]
   \<and> laplacianSmoothing soupGeometry 3 0.5 = ([smoothingError], Inr soupGeometry)
   \<and> buildAdjacencyMap soupGeometry = Inr []"
  by (simp add: createHybridTShirt_def worldWith_def avatarAt0_def soupGeometry_def Let_def
        laplacianSmoothing_def buildAdjacencyMap_def)

text \<open>
  C3 as amended.  For a mesh without a triangle index no stage raises.
  \<open>createHybridTShirt\<close> reports \<open>Geometry must be indexed\<close> through \<open>console.error\<close> and
  returns an empty group; it allocates no garment geometry and leaves every other object
  of the store as it was.  \<open>laplacianSmoothing\<close> reports through \<open>console.error\<close> and
  returns with the geometry unchanged.  \<open>buildNeighborMap\<close> and \<open>buildAdjacencyMap\<close>
  return an empty map, and \<open>applyLaplacianSmoothing\<close> returns the geometry unchanged.
\<close>

theorem unindexed_mesh_reported_without_raising:
  assumes "objs w (geometry avatarMesh) = Some body" and "index body = None"
  shows "snd (createHybridTShirt w avatarMesh opts) = Inr []
     \<and> consoleErrors (fst (createHybridTShirt w avatarMesh opts)) = consoleErrors w @ [indexError]
     \<and> nextAddr (fst (createHybridTShirt w avatarMesh opts)) = nextAddr w
     \<and> (\<forall>a. a \<noteq> geometry avatarMesh \<longrightarrow>
           objs (fst (createHybridTShirt w avatarMesh opts)) a = objs w a)
     \<and> laplacianSmoothing body iterations lambda = ([smoothingError], Inr body)
     \<and> buildNeighborMap body = Inr []
     \<and> buildAdjacencyMap body = Inr []
     \<and> applyLaplacianSmoothing iterations lambda body = Inr body"
proof -
  note r = createHybridTShirt_unindexed[OF assms, of opts]
  have a: "snd (createHybridTShirt w avatarMesh opts) = Inr []" unfolding r by simp
  have b: "consoleErrors (fst (createHybridTShirt w avatarMesh opts)) = consoleErrors w @ [indexError]"
    unfolding r by simp
  have c: "nextAddr (fst (createHybridTShirt w avatarMesh opts)) = nextAddr w" unfolding r by simp
  have d: "\<forall>a. a \<noteq> geometry avatarMesh \<longrightarrow>
           objs (fst (createHybridTShirt w avatarMesh opts)) a = objs w a" unfolding r by simp
  have e: "laplacianSmoothing body iterations lambda = ([smoothingError], Inr body)"
    using assms(2) by (simp add: laplacianSmoothing_def)
  have f: "buildNeighborMap body = Inr []" "buildAdjacencyMap body = Inr []"
    using assms(2) by (simp_all add: buildNeighborMap_def buildAdjacencyMap_def)
  have g: "applyLaplacianSmoothing iterations lambda body = Inr body"
    using f(2) by (simp add: applyLaplacianSmoothing_def smoothPass_empty_iter)
  from a b c d e f g show ?thesis by blast
qed

theorem unindexed_mesh_reported_without_raising_witness:
  "objs (worldWith soupGeometry) (geometry avatarAt0) = Some soupGeometry
   \<and> index soupGeometry = None
   \<and> snd (createHybridTShirt (worldWith soupGeometry) avatarAt0 defaultOptions) = Inr []
   \<and> nextAddr (fst (createHybridTShirt (worldWith soupGeometry) avatarAt0 defaultOptions)) = 1
   \<and> applyLaplacianSmoothing 3 0.4 soupGeometry = Inr soupGeometry"
proof -
  have l: "objs (worldWith soupGeometry) (geometry avatarAt0) = Some soupGeometry"
    by (simp add: worldWith_def avatarAt0_def)
  have i: "index soupGeometry = None" by (simp add: soupGeometry_def)
  have n: "nextAddr (worldWith soupGeometry) = 1" by (simp add: worldWith_def)
  show ?thesis
    using unindexed_mesh_reported_without_raising[OF l i, of defaultOptions 3 "0.4"] l i n by simp
qed

section \<open>The frame of a fitting call\<close>

text \<open>
  C8 as amended.  A call of \<open>createHybridTShirt\<close> on a live avatar geometry never changes
  the positions or the triangle index of that geometry, and leaves every other object
  that existed before the call as it was.  The normal attribute of the avatar's geometry
  is left alone when it is present, and is computed in place when it is absent.  The
  geometry of a returned garment mesh lives at an address that held no object before the
  call, different from the avatar's.
\<close>

theorem createHybridTShirt_body_frame:
  assumes "objs w (geometry avatarMesh) = Some body" and "wellFormed w"
  shows "map_option position (objs (fst (createHybridTShirt w avatarMesh opts)) (geometry avatarMesh))
           = Some (position body)
     \<and> map_option index (objs (fst (createHybridTShirt w avatarMesh opts)) (geometry avatarMesh))
           = Some (index body)
     \<and> objs (fst (createHybridTShirt w avatarMesh opts)) (geometry avatarMesh)
           = Some (if normal body = None then computeVertexNormals body else body)
     \<and> (\<forall>a. a \<noteq> geometry avatarMesh \<and> a < nextAddr w \<longrightarrow>
            objs (fst (createHybridTShirt w avatarMesh opts)) a = objs w a)
     \<and> (\<forall>grp m. snd (createHybridTShirt w avatarMesh opts) = Inr grp \<and> m \<in> set grp \<longrightarrow>
            geometry m \<noteq> geometry avatarMesh \<and> objs w (geometry m) = None)"
proof -
  note f = createHybridTShirt_frame[OF assms, of opts]
  have b: "objs (fst (createHybridTShirt w avatarMesh opts)) (geometry avatarMesh) = Some (bodyAfter body)"
    using f by blast
  have p: "position (bodyAfter body) = position body" "index (bodyAfter body) = index body"
    using computeVertexNormals_keeps[of body] by (simp_all add: bodyAfter_def)
  have fresh: "\<forall>grp m. snd (createHybridTShirt w avatarMesh opts) = Inr grp \<and> m \<in> set grp \<longrightarrow>
            geometry m \<noteq> geometry avatarMesh \<and> objs w (geometry m) = None"
    using f assms(1) by fastforce
  show ?thesis using b p f fresh by (simp add: bodyAfter_def)
qed

text \<open>
  C8 as stated fails: on an indexed body triangle without a normal attribute the call
  writes the normals it computes into the body's own geometry.
\<close>

theorem body_normals_written_counterexample:
  "map_option normal (objs (worldWith bareTriangle) 0) = Some None
   \<and> map_option normal (objs (fst (createHybridTShirt (worldWith bareTriangle) avatarAt0 defaultOptions)) 0)
       = Some (Some [(0, 0, 1), (0, 0, 1), (0, 0, 1)])"
proof -
  have l: "objs (worldWith bareTriangle) (geometry avatarAt0) = Some bareTriangle"
    by (simp add: worldWith_def avatarAt0_def)
  have g: "geometry avatarAt0 = 0" by (simp add: avatarAt0_def)
  have n: "normal (bodyAfter bareTriangle) = Some [(0, 0, 1), (0, 0, 1), (0, 0, 1)]"
    by (simp add: bodyAfter_def bareTriangle_def computeVertexNormals_def facesOf_def Let_def
          vnormalize_def vlength_def)
  have "objs (fst (createHybridTShirt (worldWith bareTriangle) avatarAt0 defaultOptions)) 0
      = Some (bodyAfter bareTriangle)"
    using createHybridTShirt_frame[OF l wellFormed_worldWith, of defaultOptions] g by simp
  then show ?thesis using n by (simp add: worldWith_def bareTriangle_def)
qed

section \<open>The order of the pipeline\<close>

text \<open>
  C2 as stated fails: with the default options the pipeline runs the smoother first, and
  the collision resolver before the dynamic wrinkles, so the passes the specification
  names do not come in the specification's order.
\<close>

lemma pipeline_order_counterexample: "passTrace defaultOptions =
   [LaplacianSmoothing, GravityDrape, SubtleWrinkles, StretchZones, FabricWeight, SeamTension,
    CollisionResponse, DynamicWrinkles, ComputeVertexNormals]
  \<and> filter (\<lambda>p. p \<in> set specPassOrder) (passTrace defaultOptions) \<noteq> specPassOrder"
  by (simp add: passTrace_def drapeStages_def applyRealisticFabricPhysics_def hybridPhysicsOptions_def
      tracePasses_def record_pass_def defaultOptions_def orElse_def skipStage_def specPassOrder_def)

text \<open>
  Run on a store, the passes of \<open>createHybridTShirt\<close> write the garment geometry only,
  and the raycasting ones read the avatar's geometry, which stays as it is: the run on the
  store is the run of the passes on the garment geometry itself.
\<close>

lemma runStages_tracks:
  assumes "list_all2 (\<lambda>f p. \<forall>w G. objs w g = Some G \<and> objs w a = Some B \<longrightarrow>
              f w = (case p G of Inl e \<Rightarrow> Inl e
                     | Inr G' \<Rightarrow> Inr (w\<lparr> objs := (objs w)(g \<mapsto> G') \<rparr>))) fs ps"
    and "a \<noteq> g" and "objs w g = Some G" and "objs w a = Some B"
  shows "runStages fs w =
           (w\<lparr> objs := (objs w)(g \<mapsto> fst (runStages ps G)) \<rparr>, snd (runStages ps G))"
  using assms
proof (induction fs ps arbitrary: w G rule: list_all2_induct)
  case Nil
  then show ?case by (simp add: map_upd_triv)
next
  case (Cons f fs p ps)
  have step: "f w = (case p G of Inl e \<Rightarrow> Inl e
                     | Inr G' \<Rightarrow> Inr (w\<lparr> objs := (objs w)(g \<mapsto> G') \<rparr>))"
    using Cons.hyps(1) Cons.prems(2,3) by blast
  show ?case
  proof (cases "p G")
    case (Inl e)
    then show ?thesis using step Cons.prems(2) by (simp add: map_upd_triv)
  next
    case (Inr G')
    let ?w' = "w\<lparr> objs := (objs w)(g \<mapsto> G') \<rparr>"
    have a: "objs ?w' g = Some G'" by simp
    have b: "objs ?w' a = Some B" using Cons.prems(1,3) by simp
    have r: "runStages fs ?w' =
           (?w'\<lparr> objs := (objs ?w')(g \<mapsto> fst (runStages ps G')) \<rparr>, snd (runStages ps G'))"
      using Cons.IH[OF Cons.prems(1) a b] .
    have c: "?w'\<lparr> objs := (objs ?w')(g \<mapsto> fst (runStages ps G')) \<rparr>
               = w\<lparr> objs := (objs w)(g \<mapsto> fst (runStages ps G')) \<rparr>"
      by simp
    have l: "runStages (f # fs) w = runStages fs ?w'" using step Inr by simp
    have q: "runStages (p # ps) G = runStages ps G'" using Inr by simp
    show ?thesis unfolding l q r c ..
  qed
qed

lemma drapeStages_tracks:
  "list_all2 (\<lambda>f p. \<forall>w G. objs w g = Some G \<and> objs w (geometry avatarMesh) = Some B \<longrightarrow>
              f w = (case p G of Inl e \<Rightarrow> Inl e
                     | Inr G' \<Rightarrow> Inr (w\<lparr> objs := (objs w)(g \<mapsto> G') \<rparr>)))
     (drapeStages (storePasses avatarMesh g) opts)
     [ if orElse (smoothing opts) True then applyLaplacianSmoothing 3 0.4 else skipStage,
       if orElse (gravity opts) True then applyGravityDrape 0.01 else skipStage,
       if orElse (wrinkles opts) True then addSubtleWrinkles 0.002 else skipStage,
       applyStretchZones (intersectObject B (side avatarMesh)),
       applyFabricWeight medium,
       applySeamTension,
       applyCollisionResponse (intersectObject B (side avatarMesh)) 0.015,
       applyDynamicWrinkles (intersectObject B (side avatarMesh)) 0.004,
       (\<lambda>G. Inr (computeVertexNormals G)) ]"
  by (simp add: drapeStages_def applyRealisticFabricPhysics_def hybridPhysicsOptions_def
      storePasses_def orElse_def skipStage_def onGeometry_def avatarCast_def map_upd_triv)

lemma createHybridTShirt_on_geometry:
  assumes live: "objs w (geometry avatarMesh) = Some body"
    and wf: "wellFormed w"
    and idx: "index body = Some oldIndex"
  shows "createHybridTShirt w avatarMesh opts =
     (let geom = bodyAfter body;
          cast = intersectObject geom (side avatarMesh);
          g = nextAddr w;
          built = buildShirtGeometry (position geom) (the (normal geom)) oldIndex opts;
          run = runStages
            [ if orElse (smoothing opts) True then applyLaplacianSmoothing 3 0.4 else skipStage,
              if orElse (gravity opts) True then applyGravityDrape 0.01 else skipStage,
              if orElse (wrinkles opts) True then addSubtleWrinkles 0.002 else skipStage,
              applyStretchZones cast,
              applyFabricWeight medium,
              applySeamTension,
              applyCollisionResponse cast 0.015,
              applyDynamicWrinkles cast 0.004,
              (\<lambda>G. Inr (computeVertexNormals G)) ] built
      in (w\<lparr> objs := (objs w)(geometry avatarMesh \<mapsto> geom, g \<mapsto> fst run), nextAddr := Suc g \<rparr>,
          case snd run of
            Some e \<Rightarrow> Inl e
          | None \<Rightarrow> Inr [\<lparr> geometry = g, side = DoubleSide \<rparr>]))"
proof -
  let ?a = "geometry avatarMesh"
  let ?geom = "bodyAfter body"
  let ?g = "nextAddr w"
  let ?w1 = "if normal body = None then w\<lparr> objs := (objs w)(?a \<mapsto> ?geom) \<rparr> else w"
  let ?built = "buildShirtGeometry (position ?geom) (the (normal ?geom)) oldIndex opts"
  let ?w2 = "?w1\<lparr> objs := (objs ?w1)(?g \<mapsto> ?built), nextAddr := Suc ?g \<rparr>"
  let ?ps = "[ if orElse (smoothing opts) True then applyLaplacianSmoothing 3 0.4 else skipStage,
              if orElse (gravity opts) True then applyGravityDrape 0.01 else skipStage,
              if orElse (wrinkles opts) True then addSubtleWrinkles 0.002 else skipStage,
              applyStretchZones (intersectObject ?geom (side avatarMesh)),
              applyFabricWeight medium,
              applySeamTension,
              applyCollisionResponse (intersectObject ?geom (side avatarMesh)) 0.015,
              applyDynamicWrinkles (intersectObject ?geom (side avatarMesh)) 0.004,
              (\<lambda>G. Inr (computeVertexNormals G)) ]"
  have ne: "?a \<noteq> ?g" using live wf by (auto simp: wellFormed_def)
  have ig: "index ?geom = Some oldIndex"
    using idx computeVertexNormals_keeps[of body] by (simp add: bodyAfter_def)
  have w1: "?w1 = w\<lparr> objs := (objs w)(?a \<mapsto> ?geom) \<rparr>"
    using live by (simp add: bodyAfter_def map_upd_triv)
  have c: "createHybridTShirt w avatarMesh opts =
        (case runStages (drapeStages (storePasses avatarMesh ?g) opts) ?w2 of
           (w3, Some e) \<Rightarrow> (w3, Inl e)
         | (w3, None) \<Rightarrow> (w3, Inr [\<lparr> geometry = ?g, side = DoubleSide \<rparr>]))"
    using live ig by (simp add: createHybridTShirt_def Let_def bodyAfter_def)
  have o1: "objs ?w2 ?g = Some ?built" by simp
  have o2: "objs ?w2 ?a = Some ?geom" using ne live by (simp add: bodyAfter_def)
  have r: "runStages (drapeStages (storePasses avatarMesh ?g) opts) ?w2 =
        (?w2\<lparr> objs := (objs ?w2)(?g \<mapsto> fst (runStages ?ps ?built)) \<rparr>, snd (runStages ?ps ?built))"
    by (rule runStages_tracks[OF drapeStages_tracks ne o1 o2])
  have e: "?w2\<lparr> objs := (objs ?w2)(?g \<mapsto> X) \<rparr>
        = w\<lparr> objs := (objs w)(?a \<mapsto> ?geom, ?g \<mapsto> X), nextAddr := Suc ?g \<rparr>" for X
    unfolding w1 by simp
  show ?thesis
    unfolding c r e Let_def by (simp split: option.splits)
qed

text \<open>
  C2 as amended.  On an indexed body \<open>createHybridTShirt\<close> builds the shirt geometry by
  region selection followed by the fabric offset inflation of the kept vertices, and then
  applies to it, in this order: Laplacian smoothing (3 iterations, lambda 0.4), gravity
  drape (0.01) and subtle wrinkles (0.002), each unless switched off by its option; then
  stretch zones, fabric weight (medium), seam tension, collision response (0.015) and
  dynamic wrinkles (0.004); and a final recomputation of the vertex normals.  The passes
  that raycast do so against the avatar's geometry; the run stops at the first pass that
  throws; the result is the geometry of the returned garment, at a fresh address.  So the
  smoother runs first, not last, and the collision resolver runs before the dynamic
  wrinkles.  The same order is what the recorded trace of the passes shows.
\<close>

theorem pipeline_runs_passes_in_code_order:
  assumes "objs w (geometry avatarMesh) = Some body" and "wellFormed w"
    and "index body = Some oldIndex"
  shows "createHybridTShirt w avatarMesh opts =
     (let geom = (if normal body = None then computeVertexNormals body else body);
          cast = intersectObject geom (side avatarMesh);
          g = nextAddr w;
          built = buildShirtGeometry (position geom) (the (normal geom)) oldIndex opts;
          run = runStages
            [ if orElse (smoothing opts) True then applyLaplacianSmoothing 3 0.4 else skipStage,
              if orElse (gravity opts) True then applyGravityDrape 0.01 else skipStage,
              if orElse (wrinkles opts) True then addSubtleWrinkles 0.002 else skipStage,
              applyStretchZones cast,
              applyFabricWeight medium,
              applySeamTension,
              applyCollisionResponse cast 0.015,
              applyDynamicWrinkles cast 0.004,
              (\<lambda>G. Inr (computeVertexNormals G)) ] built
      in (w\<lparr> objs := (objs w)(geometry avatarMesh \<mapsto> geom, g \<mapsto> fst run), nextAddr := Suc g \<rparr>,
          case snd run of
            Some e \<Rightarrow> Inl e
          | None \<Rightarrow> Inr [\<lparr> geometry = g, side = DoubleSide \<rparr>]))
   \<and> position (buildShirtGeometry ps ns oldIndex opts) =
        map (\<lambda>(p, n). fst (inflateVertex (bodyFrame ps opts) (resolveEase opts) p n))
            (filter (\<lambda>(p, n). vertexInRegion (bodyFrame ps opts) p) (zip ps ns))
   \<and> passTrace opts =
       (if orElse (smoothing opts) True then [LaplacianSmoothing] else [])
       @ (if orElse (gravity opts) True then [GravityDrape] else [])
       @ (if orElse (wrinkles opts) True then [SubtleWrinkles] else [])
       @ [StretchZones, FabricWeight, SeamTension, CollisionResponse, DynamicWrinkles,
          ComputeVertexNormals]"
proof -
  have a: "createHybridTShirt w avatarMesh opts =
     (let geom = (if normal body = None then computeVertexNormals body else body);
          cast = intersectObject geom (side avatarMesh);
          g = nextAddr w;
          built = buildShirtGeometry (position geom) (the (normal geom)) oldIndex opts;
          run = runStages
            [ if orElse (smoothing opts) True then applyLaplacianSmoothing 3 0.4 else skipStage,
              if orElse (gravity opts) True then applyGravityDrape 0.01 else skipStage,
              if orElse (wrinkles opts) True then addSubtleWrinkles 0.002 else skipStage,
              applyStretchZones cast,
              applyFabricWeight medium,
              applySeamTension,
              applyCollisionResponse cast 0.015,
              applyDynamicWrinkles cast 0.004,
              (\<lambda>G. Inr (computeVertexNormals G)) ] built
      in (w\<lparr> objs := (objs w)(geometry avatarMesh \<mapsto> geom, g \<mapsto> fst run), nextAddr := Suc g \<rparr>,
          case snd run of
            Some e \<Rightarrow> Inl e
          | None \<Rightarrow> Inr [\<lparr> geometry = g, side = DoubleSide \<rparr>]))"
    using createHybridTShirt_on_geometry[OF assms, of opts] unfolding bodyAfter_def .
  have b: "position (buildShirtGeometry ps ns oldIndex opts) =
        map (\<lambda>(p, n). fst (inflateVertex (bodyFrame ps opts) (resolveEase opts) p n))
            (filter (\<lambda>(p, n). vertexInRegion (bodyFrame ps opts) p) (zip ps ns))"
    by (simp add: buildShirtGeometry_def Let_def case_prod_unfold)
  have c: "passTrace opts =
       (if orElse (smoothing opts) True then [LaplacianSmoothing] else [])
       @ (if orElse (gravity opts) True then [GravityDrape] else [])
       @ (if orElse (wrinkles opts) True then [SubtleWrinkles] else [])
       @ [StretchZones, FabricWeight, SeamTension, CollisionResponse, DynamicWrinkles,
          ComputeVertexNormals]"
    by (simp add: passTrace_def drapeStages_def applyRealisticFabricPhysics_def hybridPhysicsOptions_def
        tracePasses_def record_pass_def orElse_def skipStage_def)
  from a b c show ?thesis by blast
qed

section \<open>The clearance of the finished garment\<close>

text \<open>
  The fitting call on the body with the flap, pass by pass.  Vertex 0 of the shirt stands
  1/40 above the top corner of the flat patch, so the stretch pass (threshold 0.02) and
  the collision pass (threshold 0.015) leave it alone; the weight pass only lowers the
  two other vertices; the wrinkle pass (threshold 0.03) then shifts vertex 0 sideways over
  the flap.
\<close>

lemmas cast_defs = intersectObject_def cliffBody_def facesOf_def
  intersectTriangle_def Let_def vlength_def

lemma cliff_cast_G1: "intersectObject cliffBody FrontSide (1/40, 0, 0) zDown = Some (1/40)"
  by (simp add: cast_defs)

lemma cliff_frame: "bodyFrame (position cliffBody) cliffOptions =
   \<lparr> minY = -3/2, bodyHeight = 2, bodyWidth = 1/20, topY = 1/5, bottomY = -1/2, neckTopY = 17/50, sleeveEndY = -3/50 \<rparr>"
  by (simp add: bodyFrame_def cliffBody_def cliffOptions_def minList_def maxList_def orElse_def Let_def)

lemma cliff_region: "map (vertexInRegion (bodyFrame (position cliffBody) cliffOptions)) (position cliffBody)
   = [True, True, True, False, False, False]"
  unfolding cliff_frame by (simp add: cliffBody_def vertexInRegion_def Let_def)

lemma cliff_radial_a: "min (sqrt (1 / 800) * 40) 1 = 1"
proof -
  have "1 / 40 \<le> sqrt (1 / 800)" by (rule real_le_rsqrt) (simp add: power2_eq_square)
  then show ?thesis by simp
qed

lemma cliff_radial_b: "min (sqrt (97 / 20000) * 40) 1 = 1"
proof -
  have "1 / 40 \<le> sqrt (97 / 20000)" by (rule real_le_rsqrt) (simp add: power2_eq_square)
  then show ?thesis by simp
qed

lemma cliff_build: "buildShirtGeometry (position cliffBody) (the (normal cliffBody)) [0, 2, 1, 3, 4, 5] cliffOptions = shirt0"
  unfolding buildShirtGeometry_def Let_def cliff_region cliff_frame
  apply (simp add: cliffBody_def vertexInRegion_def Let_def compactIndex_def keptAt_def oldToNew_def
     inflateVertex_def fabricDisplacement_def resolveEase_def cliffOptions_def orElse_def blendedOffset_Finite
     actualOffset_Finite adjustedOffset_Finite vnormalize_def vlength_def shirt0_def
     cliff_radial_a cliff_radial_b)
  done

lemma cliff_cast_G2: "cliffCast (13/200, - (3/10), 0) zDown = Some (1/40)"
  by (simp add: cast_defs)

lemma cliff_cast_G3: "cliffCast (1/40, - (9/20), 0) zDown = Some (1/40)"
  by (simp add: cast_defs)

lemma cliff_cast_G2_dropped: "cliffCast (13/200, - (62039/200000), 0) zDown = None"
  by (simp add: cast_defs)

lemma cliff_cast_G3_dropped: "cliffCast (1/40, - (37209/80000), 0) zDown = None"
  by (simp add: cast_defs)

lemma vnormalize_up: "0 < k \<Longrightarrow> vnormalize (0, 0, k) = (0, 0, 1)"
  by (simp add: vnormalize_def vlength_def Let_def)

lemma flat_normals:
  assumes "0 < (c - e) * (b - f) - (d - f) * (a - e)" and "length N = 3"
  shows "computeVertexNormals
           \<lparr> position = [(a, b, 0), (c, d, 0), (e, f, 0)], normal = Some N, index = Some [0, 2, 1] \<rparr>
         = \<lparr> position = [(a, b, 0), (c, d, 0), (e, f, 0)],
             normal = Some [(0, 0, 1), (0, 0, 1), (0, 0, 1)], index = Some [0, 2, 1] \<rparr>"
  using assms
  by (simp add: computeVertexNormals_def facesOf_def Let_def numeral_3_eq_3 vnormalize_up)

lemma stretch_G1: "stretchVertex cliffCast (- (9/20)) (9/20) (1/40, 0, 0) zUp = (1/40, 0, 0)"
  by (simp add: stretchVertex_def cliff_cast_G1)

lemma stretch_G2: "stretchVertex cliffCast (- (9/20)) (9/20) (13/200, - (3/10), 0) zUp = (13/200, - (3/10), 0)"
  by (simp add: stretchVertex_def cliff_cast_G2)

lemma stretch_G3: "stretchVertex cliffCast (- (9/20)) (9/20) (1/40, - (9/20), 0) zUp = (1/40, - (9/20), 0)"
  by (simp add: stretchVertex_def cliff_cast_G3)

lemma shirt0_bbox: "bboxMinY shirt0 = - (9/20)" "bboxMaxY shirt0 = 0"
  by (simp_all add: shirt0_def bboxMinY_def bboxMaxY_def minList_def maxList_def)

lemma cliff_stretch: "applyStretchZones cliffCast shirt0 = Inr shirt0"
proof -
  have p: "map2 (stretchVertex cliffCast (- (9/20)) (9/20)) (position shirt0) [zUp, zUp, zUp] = position shirt0"
    by (simp add: shirt0_def stretch_G1 stretch_G2 stretch_G3)
  have n: "normalAttribute shirt0 = Inr [zUp, zUp, zUp]" by (simp add: normalAttribute_def shirt0_def)
  have c: "computeVertexNormals shirt0 = shirt0"
    unfolding shirt0_def by (rule flat_normals) simp_all
  show ?thesis
    by (simp add: applyStretchZones_def n shirt0_bbox Let_def p c)
qed

lemma sqrt_169_40000: "sqrt (169 / 40000) = 13 / 200" by (rule real_sqrt_unique) (simp_all add: power2_eq_square)

lemma sqrt_1_1600: "sqrt (1 / 1600) = 1 / 40" by (rule real_sqrt_unique) (simp_all add: power2_eq_square)

lemma weight_G1: "weightVertex (3/200) (- (9/20)) (9/20) (1/40, 0, 0) = (1/40, 0, 0)"
  by (simp add: weightVertex_def Let_def)

lemma weight_G2: "weightVertex (3/200) (- (9/20)) (9/20) (13/200, - (3/10), 0) = (13/200, - (62039/200000), 0)"
  by (simp add: weightVertex_def Let_def sqrt_169_40000)

lemma weight_G3: "weightVertex (3/200) (- (9/20)) (9/20) (1/40, - (9/20), 0) = (1/40, - (37209/80000), 0)"
  by (simp add: weightVertex_def Let_def sqrt_1_1600)

lemma shirt1_normals: "computeVertexNormals shirt1 = shirt1"
  unfolding shirt1_def by (rule flat_normals) simp_all

lemma cliff_weight: "applyFabricWeight medium shirt0 = Inr shirt1"
proof -
  have p: "map (weightVertex (3/200) (- (9/20)) (9/20)) (position shirt0) = position shirt1"
    by (simp add: shirt0_def shirt1_def weight_G1 weight_G2 weight_G3)
  have e: "shirt0\<lparr> position := position shirt1 \<rparr> = shirt1"
    by (simp add: shirt0_def shirt1_def)
  have c: "computeVertexNormals (shirt0\<lparr> position := position shirt1 \<rparr>) = shirt1"
    unfolding e by (rule shirt1_normals)
  show ?thesis
    by (simp add: applyFabricWeight_def shirt0_bbox Let_def p c)
qed

lemma shirt1_bbox: "bboxMinY shirt1 = - (37209/80000)" "bboxMaxY shirt1 = 0"
  by (simp_all add: shirt1_def bboxMinY_def bboxMaxY_def minList_def maxList_def)

lemma no_side_seam: "0 < x \<Longrightarrow> \<not> \<bar>\<bar>atan2 0 x\<bar> - pi / 2\<bar> < 0.3"
  using pi_ge_two by (simp add: atan2_def)

lemma seam_G1: "seamVertex (- (334881/4000000)) (1/40, 0, 0) = (1/40, 0, 0)"
  using no_side_seam[of "1/40"] by (simp add: seamVertex_def Let_def)

lemma seam_G2: "seamVertex (- (334881/4000000)) (13/200, - (62039/200000), 0) = (13/200, - (62039/200000), 0)"
  using no_side_seam[of "13/200"] by (simp add: seamVertex_def Let_def)

lemma seam_G3: "seamVertex (- (334881/4000000)) (1/40, - (37209/80000), 0) = (1/40, - (37209/80000), 0)"
  using no_side_seam[of "1/40"] by (simp add: seamVertex_def Let_def)

lemma cliff_seam: "applySeamTension shirt1 = Inr shirt1"
proof -
  have sy: "bboxMinY shirt1 + (bboxMaxY shirt1 - bboxMinY shirt1) * 0.82 = - (334881/4000000)"
    by (simp add: shirt1_bbox)
  have p: "map (seamVertex (- (334881/4000000))) (position shirt1) = position shirt1"
    by (simp add: shirt1_def seam_G1 seam_G2 seam_G3)
  show ?thesis
    unfolding applySeamTension_def Let_def sy p by (simp add: shirt1_normals)
qed

lemma cliff_collision: "applyCollisionResponse cliffCast (3/200) shirt1 = Inr shirt1"
  by (simp add: applyCollisionResponse_def normalAttribute_def shirt1_def collisionVertex_def collides_def
      cliff_cast_G1 cliff_cast_G2_dropped cliff_cast_G3_dropped)

lemma wrinkle_G1: "wrinkleVertex cliffCast (1/250) (1/40, 0, 0) zUp = (1/40 - (sin 1 * sin (3/2)) / 250, 0, 0)"
  by (simp add: wrinkleVertex_def cliff_cast_G1 Let_def)

lemma wrinkle_G2: "wrinkleVertex cliffCast (1/250) (13/200, - (62039/200000), 0) zUp = (13/200, - (62039/200000), 0)"
  by (simp add: wrinkleVertex_def cliff_cast_G2_dropped Let_def)

lemma wrinkle_G3: "wrinkleVertex cliffCast (1/250) (1/40, - (37209/80000), 0) zUp = (1/40, - (37209/80000), 0)"
  by (simp add: wrinkleVertex_def cliff_cast_G3_dropped Let_def)

lemma shirt2_normals: "0 \<le> s \<Longrightarrow> computeVertexNormals (shirt2 s) = shirt2 s"
  unfolding shirt2_def by (rule flat_normals) (simp_all add: field_simps)

lemma sin_ge_inv_sqrt2:
  assumes "pi / 4 \<le> x" and "x \<le> 3 * pi / 4"
  shows "sqrt 2 / 2 \<le> sin x"
proof (cases "x \<le> pi / 2")
  case True
  have "sin (pi / 4) \<le> sin x"
    using assms(1) True by (intro sin_monotone_2pi_le) simp_all
  then show ?thesis by (simp add: sin_45)
next
  case False
  have "sin (pi / 4) \<le> sin (pi - x)"
    using assms(2) False by (intro sin_monotone_2pi_le) simp_all
  then show ?thesis by (simp add: sin_45)
qed

lemma wrinkleShift_bounds: "1 / 2 \<le> wrinkleShift \<and> wrinkleShift \<le> 1"
proof -
  have a: "sqrt 2 / 2 \<le> sin (1::real)"
    using pi_less_4 pi_ge_two by (intro sin_ge_inv_sqrt2) simp_all
  have b: "sqrt 2 / 2 \<le> sin (3/2::real)"
    using pi_less_4 pi_ge_two by (intro sin_ge_inv_sqrt2) simp_all
  have h: "(0::real) \<le> sqrt 2 / 2" by simp
  have s1: "0 \<le> sin (1::real)" using h a by (rule order_trans)
  have "(sqrt 2 / 2) * (sqrt 2 / 2) \<le> sin (1::real) * sin (3/2::real)"
    using a b s1 h by (rule mult_mono)
  then have lo: "1 / 2 \<le> sin (1::real) * sin (3/2::real)" by simp
  have s2: "0 \<le> sin (3/2::real)" using h b by (rule order_trans)
  have "sin (1::real) * sin (3/2::real) \<le> 1 * (1::real)"
    using s2 by (intro mult_mono) simp_all
  then show ?thesis using lo by (simp add: wrinkleShift_def)
qed

lemma cliff_wrinkle: "applyDynamicWrinkles cliffCast (1/250) shirt1 = Inr (shirt2 wrinkleShift)"
proof -
  have n: "normalAttribute shirt1 = Inr [zUp, zUp, zUp]" by (simp add: normalAttribute_def shirt1_def)
  have p: "map2 (wrinkleVertex cliffCast (1/250)) (position shirt1) [zUp, zUp, zUp] = position (shirt2 wrinkleShift)"
    by (simp add: shirt1_def shirt2_def wrinkle_G1 wrinkle_G2 wrinkle_G3 wrinkleShift_def)
  have e: "shirt1\<lparr> position := position (shirt2 wrinkleShift) \<rparr> = shirt2 wrinkleShift"
    by (simp add: shirt1_def shirt2_def)
  have c: "computeVertexNormals (shirt2 wrinkleShift) = shirt2 wrinkleShift"
    using wrinkleShift_bounds by (intro shirt2_normals) simp
  show ?thesis
    by (simp add: applyDynamicWrinkles_def n p e c)
qed


lemma avatarCast_shirtWorld: "avatarCast (shirtWorld G) avatarAt0 = cliffCast"
  by (simp add: avatarCast_def shirtWorld_def avatarAt0_def)


lemma onGeometry_shirtWorld:
  "onGeometry (Suc 0) f (shirtWorld G) =
     (case f (shirtWorld G) G of Inl e \<Rightarrow> Inl e | Inr G' \<Rightarrow> Inr (shirtWorld G'))"
  by (simp add: onGeometry_def shirtWorld_def split: sum.splits)

lemma cliff_run:
  "runStages (drapeStages (storePasses avatarAt0 1) cliffOptions) (shirtWorld shirt0)
     = (shirtWorld (shirt2 wrinkleShift), None)"
proof -
  have c: "computeVertexNormals (shirt2 wrinkleShift) = shirt2 wrinkleShift"
    using wrinkleShift_bounds by (intro shirt2_normals) simp
  show ?thesis
    by (simp add: drapeStages_def applyRealisticFabricPhysics_def hybridPhysicsOptions_def
         storePasses_def cliffOptions_def orElse_def skipStage_def onGeometry_shirtWorld
         avatarCast_shirtWorld cliff_stretch cliff_weight cliff_seam cliff_collision cliff_wrinkle c)
qed

lemma cliff_create:
  "createHybridTShirt cliffWorld avatarAt0 cliffOptions
     = (shirtWorld (shirt2 wrinkleShift), Inr [\<lparr> geometry = 1, side = DoubleSide \<rparr>])"
proof -
  have b: "buildShirtGeometry (position cliffBody) (the (normal cliffBody)) [0, 2, 1, 3, 4, 5] cliffOptions = shirt0"
    by (rule cliff_build)
  have i: "index cliffBody = Some [0, 2, 1, 3, 4, 5]" "normal cliffBody \<noteq> None"
    by (simp_all add: cliffBody_def)
  have w2: "cliffWorld\<lparr> objs := (objs cliffWorld)(1 \<mapsto> shirt0), nextAddr := 2 \<rparr> = shirtWorld shirt0"
    by (simp add: cliffWorld_def worldWith_def shirtWorld_def)
  have l: "objs cliffWorld (geometry avatarAt0) = Some cliffBody" "nextAddr cliffWorld = 1"
    by (simp_all add: cliffWorld_def worldWith_def avatarAt0_def)
  show ?thesis
    unfolding createHybridTShirt_def
    by (simp add: l i b Let_def w2 cliff_run del: One_nat_def)
qed

lemma probe_facts:
  "normal probeGeometry = Some [(0, 0, 1)]"
  "length [(0::real, 0::real, 1::real)] = length (position probeGeometry)"
  "0 < length (position probeGeometry)"
  by (simp_all add: probeGeometry_def)


























section \<open>Concrete instances of the statements above\<close>

theorem collision_response_push_witness:
  "\<exists>g'. applyCollisionResponse (constantCast (1/1000)) 0.015 probeGeometry = Inr g'
     \<and> position g' ! 0 = vadd (0, 1, 1/10) (vscale (168/10000) (0, 0, 1))"
proof -
  obtain g' where r: "applyCollisionResponse (constantCast (1/1000)) 0.015 probeGeometry = Inr g'"
     "position g' ! 0 =
        (case constantCast (1/1000) (position probeGeometry ! 0) (vneg ([(0, 0, 1)] ! 0)) of
           None \<Rightarrow> position probeGeometry ! 0
         | Some d \<Rightarrow>
             if d < 0.015 then vadd (position probeGeometry ! 0) (vscale ((0.015 - d) * 1.2) ([(0, 0, 1)] ! 0))
             else position probeGeometry ! 0)"
    using collision_response_push[OF probe_facts, of "constantCast (1/1000)"] by blast
  have "position g' ! 0 = vadd (0, 1, 1/10) (vscale (168/10000) (0, 0, 1))"
    unfolding r(2) by (simp add: probeGeometry_def constantCast_def)
  then show ?thesis using r(1) by blast
qed



lemma cliff_facts:
  "objs cliffWorld (geometry avatarAt0) = Some cliffBody"
  "wellFormed cliffWorld"
  "index cliffBody = Some [0, 2, 1, 3, 4, 5]"
  "bodyAfter cliffBody = cliffBody"
  "side avatarAt0 = FrontSide"
  by (simp_all add: cliffWorld_def worldWith_def avatarAt0_def wellFormed_def cliffBody_def bodyAfter_def)

theorem pipeline_runs_passes_in_code_order_witness:
  "objs cliffWorld (geometry avatarAt0) = Some cliffBody
   \<and> wellFormed cliffWorld
   \<and> index cliffBody = Some [0, 2, 1, 3, 4, 5]
   \<and> createHybridTShirt cliffWorld avatarAt0 cliffOptions
        = (shirtWorld (shirt2 wrinkleShift), Inr [\<lparr> geometry = 1, side = DoubleSide \<rparr>])
   \<and> passTrace cliffOptions =
       [StretchZones, FabricWeight, SeamTension, CollisionResponse, DynamicWrinkles, ComputeVertexNormals]"
proof -
  note t = pipeline_runs_passes_in_code_order[OF cliff_facts(1,2,3), of cliffOptions]
  have n: "normal cliffBody \<noteq> None" by (simp add: cliffBody_def)
  have c: "computeVertexNormals (shirt2 wrinkleShift) = shirt2 wrinkleShift"
    using wrinkleShift_bounds by (intro shirt2_normals) simp
  have r: "runStages
            [ if orElse (smoothing cliffOptions) True then applyLaplacianSmoothing 3 0.4 else skipStage,
              if orElse (gravity cliffOptions) True then applyGravityDrape 0.01 else skipStage,
              if orElse (wrinkles cliffOptions) True then addSubtleWrinkles 0.002 else skipStage,
              applyStretchZones cliffCast,
              applyFabricWeight medium,
              applySeamTension,
              applyCollisionResponse cliffCast 0.015,
              applyDynamicWrinkles cliffCast 0.004,
              (\<lambda>G. Inr (computeVertexNormals G)) ] shirt0 = (shirt2 wrinkleShift, None)"
    by (simp add: cliffOptions_def orElse_def skipStage_def cliff_stretch cliff_weight cliff_seam
        cliff_collision cliff_wrinkle c)
  have w: "cliffWorld\<lparr> objs := (objs cliffWorld)(geometry avatarAt0 \<mapsto> cliffBody, 1 \<mapsto> G),
                       nextAddr := 2 \<rparr> = shirtWorld G" for G
    by (simp add: cliffWorld_def worldWith_def shirtWorld_def avatarAt0_def)
  have g: "nextAddr cliffWorld = 1" by (simp add: cliffWorld_def worldWith_def)
  have geom: "(if normal cliffBody = None then computeVertexNormals cliffBody else cliffBody) = cliffBody"
    using n by (simp only: if_False)
  have e: "createHybridTShirt cliffWorld avatarAt0 cliffOptions
        = (shirtWorld (shirt2 wrinkleShift), Inr [\<lparr> geometry = 1, side = DoubleSide \<rparr>])"
    unfolding t[THEN conjunct1] Let_def geom cliff_facts(5) cliff_build r
    by (simp add: w g del: One_nat_def)
  have p: "passTrace cliffOptions =
       [StretchZones, FabricWeight, SeamTension, CollisionResponse, DynamicWrinkles, ComputeVertexNormals]"
    using t by (simp add: cliffOptions_def orElse_def)
  from cliff_facts(1,2,3) e p show ?thesis by blast
qed


theorem createHybridTShirt_body_frame_witness:
  "objs cliffWorld (geometry avatarAt0) = Some cliffBody
   \<and> wellFormed cliffWorld
   \<and> objs (fst (createHybridTShirt cliffWorld avatarAt0 cliffOptions)) (geometry avatarAt0) = Some cliffBody
   \<and> snd (createHybridTShirt cliffWorld avatarAt0 cliffOptions) = Inr [\<lparr> geometry = 1, side = DoubleSide \<rparr>]
   \<and> objs cliffWorld 1 = None"
proof -
  have l: "objs cliffWorld (geometry avatarAt0) = Some cliffBody"
    by (simp add: cliffWorld_def worldWith_def avatarAt0_def)
  have wf: "wellFormed cliffWorld" unfolding cliffWorld_def by (rule wellFormed_worldWith)
  have n: "normal cliffBody \<noteq> None" by (simp add: cliffBody_def)
  have r: "snd (createHybridTShirt cliffWorld avatarAt0 cliffOptions) = Inr [\<lparr> geometry = 1, side = DoubleSide \<rparr>]"
    by (simp add: cliff_create)
  note t = createHybridTShirt_body_frame[OF l wf, of cliffOptions]
  from t n have b: "objs (fst (createHybridTShirt cliffWorld avatarAt0 cliffOptions)) (geometry avatarAt0)
      = Some cliffBody" by simp
  from t r have f: "objs cliffWorld (geometry \<lparr> geometry = 1, side = DoubleSide \<rparr>) = None"
    by (metis list.set_intros(1))
  from l wf b r f show ?thesis by simp
qed

end
